theory Spec2Isabelle
  imports Complex_Main "HOL-Library.Sublist" "HOL-Library.AList" "HOL-Library.Monad_Syntax"
begin

section \<open>JSON values and their JavaScript rendering\<close>

text \<open>
  Tool arguments travel as JSON. A JSON number is a finite double, given as the rational
  it denotes. An object is the list of its own properties; a \<open>json option\<close> is a value
  that may be \<open>undefined\<close>. A string is the list of its code units (below 256).
\<close>

datatype json =
    JNull
  | JBool bool
  | JNum rat
  | JStr string
  | JArr "json list"
  | JObj "(string \<times> json) list"

definition dq :: char where
  "dq = CHR 0x22"

definition sq :: char where
  "sq = CHR 0x27"

definition bs :: char where
  "bs = CHR 0x5C"

definition nl :: char where
  "nl = CHR 0x0A"

text \<open>\<open>Array.prototype.join\<close> on strings.\<close>

fun join :: "string \<Rightarrow> string list \<Rightarrow> string" where
  "join sep [] = []"
| "join sep [x] = x"
| "join sep (x # y # ys) = x @ sep @ join sep (y # ys)"

text \<open>Decimal digits of a natural number, most significant first.\<close>

fun digits :: "nat \<Rightarrow> string" where
  "digits n =
     (if n < 10 then [''0123456789'' ! n]
      else digits (n div 10) @ [''0123456789'' ! (n mod 10)])"

declare digits.simps [simp del]

text \<open>
  \<open>Number::toString\<close>: an integral value of magnitude below \<open>2^53\<close> prints as its decimal
  digits. Every other value prints as the shortest decimal that reads back as the same
  double; that routine is the parameter \<open>dtoa\<close>.
\<close>

definition Number_toString :: "(rat \<Rightarrow> string) \<Rightarrow> rat \<Rightarrow> string" where
  "Number_toString dtoa x =
     (if x = of_int \<lfloor>x\<rfloor> \<and> \<bar>x\<bar> < 2 ^ 53
      then (if x < 0 then ''-'' else []) @ digits (nat \<bar>\<lfloor>x\<rfloor>\<bar>)
      else dtoa x)"

text \<open>\<open>JSON.stringify\<close> of a string: quoted, with the escapes of ECMA-262 \<open>QuoteJSONString\<close>.\<close>

definition hex4 :: "nat \<Rightarrow> string" where
  "hex4 n = ''00'' @ [''0123456789abcdef'' ! (n div 16), ''0123456789abcdef'' ! (n mod 16)]"

definition escape_char :: "char \<Rightarrow> string" where
  "escape_char c =
     (if c = dq then [bs, dq]
      else if c = bs then [bs, bs]
      else if c = CHR 0x08 then [bs, CHR ''b'']
      else if c = CHR 0x09 then [bs, CHR ''t'']
      else if c = CHR 0x0A then [bs, CHR ''n'']
      else if c = CHR 0x0C then [bs, CHR ''f'']
      else if c = CHR 0x0D then [bs, CHR ''r'']
      else if (of_char c :: nat) < 32 then [bs, CHR ''u''] @ hex4 (of_char c)
      else [c])"

definition quote :: "string \<Rightarrow> string" where
  "quote s = [dq] @ concat (map escape_char s) @ [dq]"

text \<open>
  \<open>JSON.stringify(value, null, 2)\<close>: \<open>ind\<close> is the current indentation, each level adds
  two spaces, an empty array or object prints without a line break.
\<close>

fun stringify :: "(rat \<Rightarrow> string) \<Rightarrow> string \<Rightarrow> json \<Rightarrow> string"
  and stringify_elems :: "(rat \<Rightarrow> string) \<Rightarrow> string \<Rightarrow> json list \<Rightarrow> string list"
  and stringify_members :: "(rat \<Rightarrow> string) \<Rightarrow> string \<Rightarrow> (string \<times> json) list \<Rightarrow> string list"
where
  "stringify dtoa ind JNull = ''null''"
| "stringify dtoa ind (JBool b) = (if b then ''true'' else ''false'')"
| "stringify dtoa ind (JNum r) = Number_toString dtoa r"
| "stringify dtoa ind (JStr s) = quote s"
| "stringify dtoa ind (JArr xs) =
     (if xs = [] then ''[]''
      else ''['' @ [nl] @ (ind @ ''  '')
           @ join ('','' @ [nl] @ (ind @ ''  '')) (stringify_elems dtoa (ind @ ''  '') xs)
           @ [nl] @ ind @ '']'')"
| "stringify dtoa ind (JObj kvs) =
     (if kvs = [] then ''{}''
      else ''{'' @ [nl] @ (ind @ ''  '')
           @ join ('','' @ [nl] @ (ind @ ''  '')) (stringify_members dtoa (ind @ ''  '') kvs)
           @ [nl] @ ind @ ''}'')"
| "stringify_elems dtoa ind [] = []"
| "stringify_elems dtoa ind (x # xs) = stringify dtoa ind x # stringify_elems dtoa ind xs"
| "stringify_members dtoa ind [] = []"
| "stringify_members dtoa ind ((k, v) # kvs) =
     (quote k @ '': '' @ stringify dtoa ind v) # stringify_members dtoa ind kvs"


section \<open>Errors and tool results\<close>

text \<open>
  The SDK's \<open>McpError(code, message)\<close>, with the three codes the server uses. A handler that
  throws is a function that returns \<open>Inl\<close> of the error.
\<close>

datatype ErrorCode = MethodNotFound | InvalidParams | InvalidRequest

datatype McpError = McpError (code: ErrorCode) (message: string)

text \<open>One item of a tool result's \<open>content\<close> array: \<open>{ type, text }\<close>.\<close>

datatype ContentItem = ContentItem (item_type: string) (item_text: string)

type_synonym CallToolResult = "ContentItem list"


section \<open>Input validation (the Zod schemas)\<close>

text \<open>
  The handlers validate with Zod (version 3). A parser takes the path of the field and the
  value found there (\<open>None\<close> when the property is absent) and returns the parsed value or
  the list of issues, each issue the JSON object Zod builds.
\<close>

fun getParsedType :: "json option \<Rightarrow> string" where
  "getParsedType None = ''undefined''"
| "getParsedType (Some JNull) = ''null''"
| "getParsedType (Some (JBool b)) = ''boolean''"
| "getParsedType (Some (JNum r)) = ''number''"
| "getParsedType (Some (JStr s)) = ''string''"
| "getParsedType (Some (JArr xs)) = ''array''"
| "getParsedType (Some (JObj kvs)) = ''object''"

definition invalid_type_message :: "string \<Rightarrow> string \<Rightarrow> string" where
  "invalid_type_message expected received =
     (if received = ''undefined'' then ''Required''
      else ''Expected '' @ expected @ '', received '' @ received)"

definition invalid_type :: "string list \<Rightarrow> string \<Rightarrow> string \<Rightarrow> json" where
  "invalid_type path expected received =
     JObj [(''code'', JStr ''invalid_type''),
           (''expected'', JStr expected),
           (''received'', JStr received),
           (''path'', JArr (map JStr path)),
           (''message'', JStr (invalid_type_message expected received))]"

definition joinValues :: "string list \<Rightarrow> string" where
  "joinValues vals = join '' | '' (map (\<lambda>v. [sq] @ v @ [sq]) vals)"

definition enum_invalid_type :: "string list \<Rightarrow> string list \<Rightarrow> string \<Rightarrow> json" where
  "enum_invalid_type path options received =
     JObj [(''expected'', JStr (joinValues options)),
           (''received'', JStr received),
           (''code'', JStr ''invalid_type''),
           (''path'', JArr (map JStr path)),
           (''message'', JStr (invalid_type_message (joinValues options) received))]"

definition invalid_enum_value :: "string list \<Rightarrow> string list \<Rightarrow> string \<Rightarrow> json" where
  "invalid_enum_value path options received =
     JObj [(''received'', JStr received),
           (''code'', JStr ''invalid_enum_value''),
           (''options'', JArr (map JStr options)),
           (''path'', JArr (map JStr path)),
           (''message'', JStr (''Invalid enum value. Expected '' @ joinValues options
                               @ '', received '' @ [sq] @ received @ [sq]))]"

definition too_small :: "string list \<Rightarrow> nat \<Rightarrow> json" where
  "too_small path minimum =
     JObj [(''code'', JStr ''too_small''),
           (''minimum'', JNum (of_nat minimum)),
           (''type'', JStr ''string''),
           (''inclusive'', JBool True),
           (''exact'', JBool False),
           (''message'', JStr (''String must contain at least '' @ digits minimum
                               @ '' character(s)'')),
           (''path'', JArr (map JStr path))]"

text \<open>\<open>z.number()\<close>\<close>

definition z_number :: "string list \<Rightarrow> json option \<Rightarrow> json list + rat" where
  "z_number path v =
     (case v of
        Some (JNum r) \<Rightarrow> Inr r
      | _ \<Rightarrow> Inl [invalid_type path ''number'' (getParsedType v)])"

text \<open>\<open>z.enum(options)\<close>\<close>

definition z_enum :: "string list \<Rightarrow> string list \<Rightarrow> json option \<Rightarrow> json list + string" where
  "z_enum options path v =
     (case v of
        Some (JStr s) \<Rightarrow>
          if s \<in> set options then Inr s else Inl [invalid_enum_value path options s]
      | _ \<Rightarrow> Inl [enum_invalid_type path options (getParsedType v)])"

text \<open>\<open>z.string().min(minimum)\<close>\<close>

definition z_string_min :: "nat \<Rightarrow> string list \<Rightarrow> json option \<Rightarrow> json list + string" where
  "z_string_min minimum path v =
     (case v of
        Some (JStr s) \<Rightarrow> if length s < minimum then Inl [too_small path minimum] else Inr s
      | _ \<Rightarrow> Inl [invalid_type path ''string'' (getParsedType v)])"

text \<open>\<open>inner.default(d)\<close>: only \<open>undefined\<close> is replaced by the default.\<close>

definition z_default ::
  "json \<Rightarrow> (string list \<Rightarrow> json option \<Rightarrow> json list + 'a) \<Rightarrow> string list \<Rightarrow> json option
   \<Rightarrow> json list + 'a" where
  "z_default d inner path v = inner path (case v of None \<Rightarrow> Some d | Some x \<Rightarrow> Some x)"

fun issues_of :: "json list + 'a \<Rightarrow> json list" where
  "issues_of (Inl issues) = issues"
| "issues_of (Inr x) = []"

text \<open>\<open>ZodError.message\<close> is \<open>JSON.stringify(issues, null, 2)\<close>.\<close>

definition ZodError_message :: "(rat \<Rightarrow> string) \<Rightarrow> json list \<Rightarrow> string" where
  "ZodError_message dtoa issues = stringify dtoa [] (JArr issues)"


section \<open>JavaScript numbers and the runtime\<close>

text \<open>
  A value of type Number: a finite double, given as the rational it denotes, an infinity
  or \<open>NaN\<close>. The sign of a zero is not modelled: the program compares its numbers with
  \<open>===\<close> and prints them, and both zeros are equal and print as \<open>0\<close>.
\<close>

datatype number = Finite rat | Infinity | MinusInfinity | NaN

text \<open>
  What the model takes from the JavaScript runtime instead of defining it:
  \<^item> \<open>round_to_double\<close>, the double nearest to an exact result (ties to even, an infinity
    beyond the largest double);
  \<^item> \<open>double_to_string\<close>, the shortest decimal that reads back as the same double;
  \<^item> \<open>upper_beyond\<close>, the upper case of the two code units below 256 whose upper case
    has no code unit below 256 (the micro sign and y with diaeresis).
\<close>

record Runtime =
  round_to_double :: "rat \<Rightarrow> number"
  double_to_string :: "rat \<Rightarrow> string"
  upper_beyond :: "char \<Rightarrow> string"

text \<open>
  The result of an arithmetic operation on doubles is the double nearest to the exact
  result. An integer of magnitude at most \<open>2^53\<close> is a double, hence its own nearest
  double; every other value is rounded by the runtime.
\<close>

definition to_double :: "Runtime \<Rightarrow> rat \<Rightarrow> number" where
  "to_double js x =
     (if x = of_int \<lfloor>x\<rfloor> \<and> \<bar>x\<bar> \<le> 2 ^ 53 then Finite x else round_to_double js x)"

text \<open>\<open>Number::add\<close> and \<open>Number::multiply\<close> (the operators \<open>+\<close> and \<open>*\<close> on numbers).\<close>

definition negative :: "number \<Rightarrow> bool" where
  "negative x = (case x of Finite a \<Rightarrow> a < 0 | MinusInfinity \<Rightarrow> True | _ \<Rightarrow> False)"

definition Number_add :: "Runtime \<Rightarrow> number \<Rightarrow> number \<Rightarrow> number" where
  "Number_add js x y =
     (case (x, y) of
        (Finite a, Finite b) \<Rightarrow> to_double js (a + b)
      | (Finite a, _) \<Rightarrow> y
      | (_, Finite b) \<Rightarrow> x
      | _ \<Rightarrow> if x = y then x else NaN)"

definition Number_multiply :: "Runtime \<Rightarrow> number \<Rightarrow> number \<Rightarrow> number" where
  "Number_multiply js x y =
     (case (x, y) of
        (Finite a, Finite b) \<Rightarrow> to_double js (a * b)
      | _ \<Rightarrow>
          if x = NaN \<or> y = NaN \<or> x = Finite 0 \<or> y = Finite 0 then NaN
          else if negative x = negative y then Infinity
          else MinusInfinity)"

text \<open>\<open>ToNumber\<close> of a value that is a number or \<open>undefined\<close> (\<open>None\<close>).\<close>

definition ToNumber :: "number option \<Rightarrow> number" where
  "ToNumber v = (case v of None \<Rightarrow> NaN | Some n \<Rightarrow> n)"

text \<open>\<open>ToString\<close> of such a value, as a template literal applies it.\<close>

definition ToString :: "(rat \<Rightarrow> string) \<Rightarrow> number option \<Rightarrow> string" where
  "ToString dtoa v =
     (case v of
        None \<Rightarrow> ''undefined''
      | Some (Finite x) \<Rightarrow> Number_toString dtoa x
      | Some Infinity \<Rightarrow> ''Infinity''
      | Some MinusInfinity \<Rightarrow> ''-Infinity''
      | Some NaN \<Rightarrow> ''NaN'')"

text \<open>\<open>Math.round\<close> gives the nearest integer, a half upwards; \<open>Math.floor\<close> the greatest
  integer below. Both are exact, and leave an infinity and \<open>NaN\<close> as they are.\<close>

definition Math_round :: "number \<Rightarrow> number" where
  "Math_round x = (case x of Finite a \<Rightarrow> Finite (of_int \<lfloor>a + 1 / 2\<rfloor>) | _ \<Rightarrow> x)"

definition Math_floor :: "number \<Rightarrow> number" where
  "Math_floor x = (case x of Finite a \<Rightarrow> Finite (of_int \<lfloor>a\<rfloor>) | _ \<Rightarrow> x)"


section \<open>The calculator tool\<close>

datatype CalculatorInput = CalculatorInput string rat rat

definition calculator_operations :: "string list" where
  "calculator_operations = [''add'', ''subtract'', ''multiply'', ''divide'']"

text \<open>
  \<open>CalculatorInputSchema.safeParse\<close>: a \<open>z.object\<close> of three fields. A value that is not an
  object is one issue at the empty path; otherwise every field is parsed, in the order of
  the schema, and the issues of all of them are collected. Unknown keys are dropped.
\<close>

definition CalculatorInputSchema_safeParse :: "json option \<Rightarrow> json list + CalculatorInput" where
  "CalculatorInputSchema_safeParse args =
     (case args of
        Some (JObj kvs) \<Rightarrow>
          (let operation = z_enum calculator_operations [''operation''] (map_of kvs ''operation'');
               a = z_number [''a''] (map_of kvs ''a'');
               b = z_number [''b''] (map_of kvs ''b'')
           in case (operation, a, b) of
                (Inr operation', Inr a', Inr b') \<Rightarrow> Inr (CalculatorInput operation' a' b')
              | _ \<Rightarrow> Inl (issues_of operation @ issues_of a @ issues_of b))
      | _ \<Rightarrow> Inl [invalid_type [] ''object'' (getParsedType args)])"

text \<open>
  \<open>handleCalculator\<close>. The operands are finite doubles and the result is the double
  nearest to the exact sum, difference, product or quotient. The \<open>switch\<close> has no
  default: an operation outside the four cases would leave \<open>result\<close> unassigned (\<open>None\<close>),
  which the template prints as \<open>undefined\<close>.
\<close>

definition calculator_text ::
  "(rat \<Rightarrow> string) \<Rightarrow> rat \<Rightarrow> string \<Rightarrow> rat \<Rightarrow> number option \<Rightarrow> string" where
  "calculator_text dtoa a operation b result =
     Number_toString dtoa a @ '' '' @ operation @ '' '' @ Number_toString dtoa b @ '' = ''
     @ ToString dtoa result"

definition handleCalculator :: "Runtime \<Rightarrow> json option \<Rightarrow> McpError + CallToolResult" where
  "handleCalculator js args =
     (case CalculatorInputSchema_safeParse args of
        Inl issues \<Rightarrow>
          Inl (McpError InvalidParams
                 (''Invalid input: '' @ ZodError_message (double_to_string js) issues))
      | Inr (CalculatorInput operation a b) \<Rightarrow>
          (case (if operation = ''add'' then Inr (Some (to_double js (a + b)))
                 else if operation = ''subtract'' then Inr (Some (to_double js (a - b)))
                 else if operation = ''multiply'' then Inr (Some (to_double js (a * b)))
                 else if operation = ''divide''
                   then (if b = 0 then Inl (McpError InvalidParams ''Cannot divide by zero'')
                         else Inr (Some (to_double js (a / b))))
                 else Inr None) of
             Inl e \<Rightarrow> Inl e
           | Inr result \<Rightarrow>
               Inr [ContentItem ''text''
                      (calculator_text (double_to_string js) a operation b result)]))"


section \<open>The weather tool\<close>

datatype WeatherInput = WeatherInput string string

definition weather_units :: "string list" where
  "weather_units = [''celsius'', ''fahrenheit'']"

text \<open>\<open>WeatherInputSchema.safeParse\<close>: \<open>city\<close> is a string of at least one code unit,
  \<open>unit\<close> one of the two units, \<open>celsius\<close> when absent.\<close>

definition WeatherInputSchema_safeParse :: "json option \<Rightarrow> json list + WeatherInput" where
  "WeatherInputSchema_safeParse args =
     (case args of
        Some (JObj kvs) \<Rightarrow>
          (let city = z_string_min 1 [''city''] (map_of kvs ''city'');
               unit = z_default (JStr ''celsius'') (z_enum weather_units) [''unit'']
                        (map_of kvs ''unit'')
           in case (city, unit) of
                (Inr city', Inr unit') \<Rightarrow> Inr (WeatherInput city' unit')
              | _ \<Rightarrow> Inl (issues_of city @ issues_of unit))
      | _ \<Rightarrow> Inl [invalid_type [] ''object'' (getParsedType args)])"

text \<open>
  What \<open>MOCK_WEATHER[key] ?? {...}\<close> yields. Each field is optional because the table is
  an object literal: a key that names a member of \<open>Object.prototype\<close> finds that inherited
  member, which is not nullish and has none of the three fields.
\<close>

record WeatherData =
  tempC :: "number option"
  humidity :: "number option"
  condition :: "string option"

definition MOCK_WEATHER :: "(string \<times> WeatherData) list" where
  "MOCK_WEATHER =
     [(''london'', \<lparr>tempC = Some (Finite 12), humidity = Some (Finite 80),
                    condition = Some ''Cloudy''\<rparr>),
      (''new york'', \<lparr>tempC = Some (Finite 18), humidity = Some (Finite 60),
                      condition = Some ''Sunny''\<rparr>),
      (''tokyo'', \<lparr>tempC = Some (Finite 22), humidity = Some (Finite 55),
                   condition = Some ''Partly Cloudy''\<rparr>),
      (''paris'', \<lparr>tempC = Some (Finite 14), humidity = Some (Finite 70),
                   condition = Some ''Rainy''\<rparr>),
      (''sydney'', \<lparr>tempC = Some (Finite 25), humidity = Some (Finite 50),
                    condition = Some ''Sunny''\<rparr>)]"

text \<open>The property names every object literal inherits from \<open>Object.prototype\<close>.\<close>

definition Object_prototype_keys :: "string list" where
  "Object_prototype_keys =
     [''constructor'', ''__defineGetter__'', ''__defineSetter__'', ''hasOwnProperty'',
      ''__lookupGetter__'', ''__lookupSetter__'', ''isPrototypeOf'', ''propertyIsEnumerable'',
      ''toString'', ''valueOf'', ''__proto__'', ''toLocaleString'']"

text \<open>Indexing an array literal with a number: \<open>undefined\<close> unless the number is an index
  within its bounds.\<close>

definition index :: "'a list \<Rightarrow> number \<Rightarrow> 'a option" where
  "index xs i =
     (case i of
        Finite x \<Rightarrow>
          if x = of_int \<lfloor>x\<rfloor> \<and> 0 \<le> x \<and> \<lfloor>x\<rfloor> < int (length xs) then Some (xs ! nat \<lfloor>x\<rfloor>)
          else None
      | _ \<Rightarrow> None)"

text \<open>The fallback object, from three successive results of \<open>Math.random()\<close>, each
  product and sum rounded to a double as the program computes it.\<close>

definition random_weather :: "Runtime \<Rightarrow> rat \<Rightarrow> rat \<Rightarrow> rat \<Rightarrow> WeatherData" where
  "random_weather js r1 r2 r3 =
     \<lparr>tempC = Some (Math_round
                (Number_add js (Finite 15) (Number_multiply js (Finite r1) (Finite 15)))),
      humidity = Some (Math_round
                   (Number_add js (Finite 40) (Number_multiply js (Finite r2) (Finite 40)))),
      condition = index [''Sunny'', ''Cloudy'', ''Rainy'', ''Windy'']
                    (Math_floor (Number_multiply js (Finite r3) (Finite 4)))\<rparr>"

definition inherited_member :: WeatherData where
  "inherited_member = \<lparr>tempC = None, humidity = None, condition = None\<rparr>"

text \<open>
  The case mappings on code units below 256. The letters that have both cases there are
  the ASCII letters and the letters from \<open>0xC0\<close> to \<open>0xDE\<close> (without the multiplication
  sign \<open>0xD7\<close>), whose lower case lies \<open>0x20\<close> above.
\<close>

definition upper_letters :: string where
  "upper_letters =
     ''ABCDEFGHIJKLMNOPQRSTUVWXYZ''
     @ [CHR 0xC0, CHR 0xC1, CHR 0xC2, CHR 0xC3, CHR 0xC4, CHR 0xC5, CHR 0xC6, CHR 0xC7,
        CHR 0xC8, CHR 0xC9, CHR 0xCA, CHR 0xCB, CHR 0xCC, CHR 0xCD, CHR 0xCE, CHR 0xCF,
        CHR 0xD0, CHR 0xD1, CHR 0xD2, CHR 0xD3, CHR 0xD4, CHR 0xD5, CHR 0xD6,
        CHR 0xD8, CHR 0xD9, CHR 0xDA, CHR 0xDB, CHR 0xDC, CHR 0xDD, CHR 0xDE]"

definition lower_letters :: string where
  "lower_letters =
     ''abcdefghijklmnopqrstuvwxyz''
     @ [CHR 0xE0, CHR 0xE1, CHR 0xE2, CHR 0xE3, CHR 0xE4, CHR 0xE5, CHR 0xE6, CHR 0xE7,
        CHR 0xE8, CHR 0xE9, CHR 0xEA, CHR 0xEB, CHR 0xEC, CHR 0xED, CHR 0xEE, CHR 0xEF,
        CHR 0xF0, CHR 0xF1, CHR 0xF2, CHR 0xF3, CHR 0xF4, CHR 0xF5, CHR 0xF6,
        CHR 0xF8, CHR 0xF9, CHR 0xFA, CHR 0xFB, CHR 0xFC, CHR 0xFD, CHR 0xFE]"

text \<open>\<open>String.prototype.toLowerCase\<close>: every other code unit below 256 is its own lower
  case.\<close>

definition lower_char :: "char \<Rightarrow> char" where
  "lower_char c = (case map_of (zip upper_letters lower_letters) c of Some d \<Rightarrow> d | None \<Rightarrow> c)"

definition toLowerCase :: "string \<Rightarrow> string" where
  "toLowerCase s = map lower_char s"

text \<open>
  \<open>String.prototype.toUpperCase\<close>: the sharp s (\<open>0xDF\<close>) becomes \<open>SS\<close>; the upper case of
  the micro sign (\<open>0xB5\<close>) and of y with diaeresis (\<open>0xFF\<close>) is left to the runtime; every
  other code unit below 256 that is not a lower-case letter is its own upper case.
\<close>

definition upper_char :: "(char \<Rightarrow> string) \<Rightarrow> char \<Rightarrow> string" where
  "upper_char beyond c =
     (case map_of (zip lower_letters upper_letters) c of
        Some d \<Rightarrow> [d]
      | None \<Rightarrow>
          if c = CHR 0xDF then ''SS''
          else if c = CHR 0xB5 \<or> c = CHR 0xFF then beyond c
          else [c])"

definition toUpperCase :: "(char \<Rightarrow> string) \<Rightarrow> string \<Rightarrow> string" where
  "toUpperCase beyond s = concat (map (upper_char beyond) s)"

definition degree :: char where
  "degree = CHR 0xB0"

text \<open>
  \<open>unit === "fahrenheit" ? Math.round(data.tempC * 1.8 + 32) : data.tempC\<close>. The literal
  \<open>1.8\<close> is the double nearest to 18/10; a missing \<open>tempC\<close> is \<open>undefined\<close>, which the
  multiplication turns into \<open>NaN\<close>.
\<close>

definition temp_of :: "Runtime \<Rightarrow> string \<Rightarrow> WeatherData \<Rightarrow> number option" where
  "temp_of js unit data =
     (if unit = ''fahrenheit''
      then Some (Math_round
                   (Number_add js
                      (Number_multiply js (ToNumber (tempC data)) (to_double js (18 / 10)))
                      (Finite 32)))
      else tempC data)"

definition unitSymbol :: "string \<Rightarrow> string" where
  "unitSymbol unit = (if unit = ''fahrenheit'' then [degree, CHR ''F''] else [degree, CHR ''C''])"

text \<open>The environment of one call: three values of \<open>Math.random()\<close> (doubles in
  \<open>[0, 1)\<close>) and the clock's \<open>new Date().toISOString()\<close>.\<close>

record Env =
  random1 :: rat
  random2 :: rat
  random3 :: rat
  now :: string

definition weather_data :: "Runtime \<Rightarrow> Env \<Rightarrow> string \<Rightarrow> WeatherData" where
  "weather_data js env key =
     (case map_of MOCK_WEATHER key of
        Some d \<Rightarrow> d
      | None \<Rightarrow>
          if key \<in> set Object_prototype_keys then inherited_member
          else random_weather js (random1 env) (random2 env) (random3 env))"

text \<open>The report object; \<open>JSON.stringify\<close> leaves out a property whose value is
  \<open>undefined\<close>.\<close>

definition weatherReport :: "Runtime \<Rightarrow> Env \<Rightarrow> string \<Rightarrow> string \<Rightarrow> json" where
  "weatherReport js env city unit =
     (let data = weather_data js env (toLowerCase city) in
      JObj ([(''city'', JStr (toUpperCase (upper_beyond js) (take 1 city) @ drop 1 city)),
             (''temperature'',
                JStr (ToString (double_to_string js) (temp_of js unit data) @ unitSymbol unit)),
             (''humidity'', JStr (ToString (double_to_string js) (humidity data) @ ''%''))]
            @ (case condition data of None \<Rightarrow> [] | Some c \<Rightarrow> [(''condition'', JStr c)])
            @ [(''timestamp'', JStr (now env))]))"

definition handleGetWeather :: "Runtime \<Rightarrow> Env \<Rightarrow> json option \<Rightarrow> McpError + CallToolResult" where
  "handleGetWeather js env args =
     (case WeatherInputSchema_safeParse args of
        Inl issues \<Rightarrow>
          Inl (McpError InvalidParams
                 (''Invalid input: '' @ ZodError_message (double_to_string js) issues))
      | Inr (WeatherInput city unit) \<Rightarrow>
          Inr [ContentItem ''text''
                 (stringify (double_to_string js) [] (weatherReport js env city unit))])"


section \<open>The server's \<open>tools/call\<close> handler\<close>

text \<open>
  The handler writes one line to standard error and switches on the name. It returns the
  line together with the handler's result; a thrown \<open>McpError\<close> is \<open>Inl\<close>. The two tool
  handlers are parameters of \<open>dispatch\<close>, so that what does not depend on them is visible.
\<close>

definition dispatch ::
  "(json option \<Rightarrow> McpError + CallToolResult) \<Rightarrow> (json option \<Rightarrow> McpError + CallToolResult)
   \<Rightarrow> string \<Rightarrow> json option \<Rightarrow> string \<times> (McpError + CallToolResult)" where
  "dispatch calculator get_weather name args =
     (''[tool:call] name='' @ name @ [nl],
      if name = ''calculator'' then calculator args
      else if name = ''get_weather'' then get_weather args
      else Inl (McpError MethodNotFound (''Unknown tool: '' @ name)))"

definition invokeTool ::
  "Runtime \<Rightarrow> Env \<Rightarrow> string \<Rightarrow> json option \<Rightarrow> McpError + CallToolResult" where
  "invokeTool js env name args =
     snd (dispatch (handleCalculator js) (handleGetWeather js env) name args)"


section \<open>Tool declarations\<close>

text \<open>
  A tool as \<open>tools/list\<close> gives it: each property of the input schema has a type name and,
  optionally, a description and an enumeration; \<open>properties\<close> and \<open>required\<close> may be absent.
\<close>

record PropertySchema =
  prop_type :: string
  prop_description :: "string option"
  prop_enum :: "string list option"

record InputSchema =
  properties :: "(string \<times> PropertySchema) list option"
  required :: "string list option"

record McpTool =
  tool_name :: string
  tool_description :: "string option"
  inputSchema :: InputSchema

definition calculatorToolDefinition :: McpTool where
  "calculatorToolDefinition =
     \<lparr>tool_name = ''calculator'',
      tool_description = Some
        ''Perform basic arithmetic operations: add, subtract, multiply, or divide two numbers.'',
      inputSchema =
        \<lparr>properties = Some
           [(''operation'',
               \<lparr>prop_type = ''string'',
                prop_description = Some ''The arithmetic operation to perform'',
                prop_enum = Some [''add'', ''subtract'', ''multiply'', ''divide'']\<rparr>),
            (''a'', \<lparr>prop_type = ''number'', prop_description = Some ''The first number'',
                     prop_enum = None\<rparr>),
            (''b'', \<lparr>prop_type = ''number'', prop_description = Some ''The second number'',
                     prop_enum = None\<rparr>)],
         required = Some [''operation'', ''a'', ''b'']\<rparr>\<rparr>"

definition weatherToolDefinition :: McpTool where
  "weatherToolDefinition =
     \<lparr>tool_name = ''get_weather'',
      tool_description = Some
        ''Get the current weather for a city. Returns temperature, humidity, and conditions.'',
      inputSchema =
        \<lparr>properties = Some
           [(''city'',
               \<lparr>prop_type = ''string'',
                prop_description = Some ''Name of the city to get weather for'',
                prop_enum = None\<rparr>),
            (''unit'',
               \<lparr>prop_type = ''string'',
                prop_description = Some ''Temperature unit (default: celsius)'',
                prop_enum = Some [''celsius'', ''fahrenheit'']\<rparr>)],
         required = Some [''city'']\<rparr>\<rparr>"

definition listTools :: "McpTool list" where
  "listTools = [calculatorToolDefinition, weatherToolDefinition]"


section \<open>The client's schema translation\<close>

datatype SchemaType = STRING | NUMBER | INTEGER | BOOLEAN | ARRAY | OBJECT

text \<open>
  What \<open>map[type] ?? SchemaType.STRING\<close> evaluates to. \<open>map\<close> is an object literal, so the
  lookup also finds what \<open>Object.prototype\<close> provides under that name (a function, or the
  prototype itself): such a value is not nullish, and \<open>??\<close> lets it through.
\<close>

datatype SchemaTypeValue = Type SchemaType | Inherited string

definition schema_type_map :: "(string \<times> SchemaType) list" where
  "schema_type_map =
     [(''string'', STRING), (''number'', NUMBER), (''integer'', INTEGER),
      (''boolean'', BOOLEAN), (''array'', ARRAY), (''object'', OBJECT)]"

definition toGeminiSchemaType :: "string \<Rightarrow> SchemaTypeValue" where
  "toGeminiSchemaType t =
     (case map_of schema_type_map t of
        Some ty \<Rightarrow> Type ty
      | None \<Rightarrow> if t \<in> set Object_prototype_keys then Inherited t else Type STRING)"

record GeminiProperty =
  gp_type :: SchemaTypeValue
  gp_description :: string
  gp_enum :: "string list option"

record GeminiParameters =
  params_type :: SchemaType
  params_properties :: "(string \<times> GeminiProperty) list"
  params_required :: "string list"

record FunctionDeclaration =
  fn_name :: string
  fn_description :: string
  fn_parameters :: GeminiParameters

text \<open>
  \<open>obj[key] = v\<close> on an object literal: the property is replaced where it stands or added
  at the end; the key \<open>__proto__\<close> reaches the setter of \<open>Object.prototype\<close> instead and
  creates no property.
\<close>

definition assign :: "(string \<times> 'a) list \<Rightarrow> string \<Rightarrow> 'a \<Rightarrow> (string \<times> 'a) list" where
  "assign obj key v = (if key = ''__proto__'' then obj else AList.update key v obj)"

definition translate_property :: "PropertySchema \<Rightarrow> GeminiProperty" where
  "translate_property val =
     \<lparr>gp_type = toGeminiSchemaType (prop_type val),
      gp_description = (case prop_description val of None \<Rightarrow> [] | Some d \<Rightarrow> d),
      gp_enum = prop_enum val\<rparr>"

text \<open>The \<open>for\<close> loop over \<open>Object.entries(schema.properties)\<close>.\<close>

fun translate_entries ::
  "(string \<times> PropertySchema) list \<Rightarrow> (string \<times> GeminiProperty) list
   \<Rightarrow> (string \<times> GeminiProperty) list" where
  "translate_entries [] acc = acc"
| "translate_entries ((key, val) # rest) acc =
     translate_entries rest (assign acc key (translate_property val))"

definition mcpToolToGeminiFn :: "McpTool \<Rightarrow> FunctionDeclaration" where
  "mcpToolToGeminiFn tool =
     (let schema = inputSchema tool in
      \<lparr>fn_name = tool_name tool,
       fn_description = (case tool_description tool of None \<Rightarrow> [] | Some d \<Rightarrow> d),
       fn_parameters =
         \<lparr>params_type = OBJECT,
          params_properties =
            (case properties schema of None \<Rightarrow> [] | Some props \<Rightarrow> translate_entries props []),
          params_required = (case required schema of None \<Rightarrow> [] | Some r \<Rightarrow> r)\<rparr>\<rparr>)"


section \<open>The client's agentic loop\<close>

text \<open>
  The model's answer (\<open>candidate\<close>): \<open>functionCalls()\<close> is a list of calls or
  \<open>undefined\<close>, \<open>text()\<close> a string.
\<close>

datatype FunctionCall = FunctionCall (call_name: string) (call_args: json)

datatype Candidate = Candidate (functionCalls: "FunctionCall list option") (candidate_text: string)

text \<open>One entry of \<open>toolResults\<close>:
  \<open>{ functionResponse: { name, response: { result } } }\<close>.\<close>

datatype FunctionResponse = FunctionResponse (response_name: string) (response_result: string)

text \<open>What \<open>chat.sendMessage\<close> is given: the user's text, or the batch of tool results.\<close>

datatype Message = UserText string | ToolResults "FunctionResponse list"

text \<open>What the \<open>catch\<close> of a turn can receive: the error of a rejected \<open>callTool\<close>, or the
  error of a failed \<open>sendMessage\<close>.\<close>

datatype Thrown = ToolError McpError | ChatError string

text \<open>The lines the client prints: \<open>Calling tool\<close>, \<open>Result\<close>, the model's final text, and
  the \<open>Error\<close> line of the \<open>catch\<close> (on \<open>console.error\<close>).\<close>

datatype ConsoleLine =
    CallingTool string json
  | Result string
  | Gemini string
  | Error Thrown

text \<open>
  The client's state: the chat session, the MCP server behind the transport, what was
  printed, and the messages handed to \<open>chat.sendMessage\<close> so far.
\<close>

record ('c, 's) Client =
  chat :: 'c
  server :: 's
  console :: "ConsoleLine list"
  sent :: "Message list"

text \<open>
  The two collaborators are parameters. \<open>sendMessage\<close> answers with a candidate or throws.
  \<open>callTool\<close> is the SDK's \<open>mcpClient.callTool\<close>: it resolves with the content the server's
  handler returned, and rejects with the \<open>McpError\<close> the handler threw (the SDK sends a
  thrown error as a JSON-RPC error response, and the client's request promise rejects).
\<close>

type_synonym 'c sendMessage = "'c \<Rightarrow> Message \<Rightarrow> (string + Candidate) \<times> 'c"

type_synonym 's callTool = "'s \<Rightarrow> string \<Rightarrow> json \<Rightarrow> (McpError + CallToolResult) \<times> 's"

definition resultText :: "CallToolResult \<Rightarrow> string" where
  "resultText content =
     join [nl] (map item_text (filter (\<lambda>c. item_type c = ''text'') content))"

text \<open>
  The \<open>for\<close> loop over the requested calls. It stops at the first call that throws, with
  the results collected so far dropped.
\<close>

fun process_calls ::
  "'s callTool \<Rightarrow> FunctionCall list \<Rightarrow> 's \<Rightarrow> ConsoleLine list \<Rightarrow> FunctionResponse list
   \<Rightarrow> (McpError + FunctionResponse list) \<times> 's \<times> ConsoleLine list" where
  "process_calls callTool [] s out toolResults = (Inr toolResults, s, out)"
| "process_calls callTool (c # cs) s out toolResults =
     (case callTool s (call_name c) (call_args c) of
        (Inl e, s') \<Rightarrow> (Inl e, s', out @ [CallingTool (call_name c) (call_args c)])
      | (Inr content, s') \<Rightarrow>
          process_calls callTool cs s'
            (out @ [CallingTool (call_name c) (call_args c), Result (resultText content)])
            (toolResults @ [FunctionResponse (call_name c) (resultText content)]))"

text \<open>
  One pass through the body of \<open>while (true)\<close>: \<open>Inl\<close> when the turn is over (the final
  text was printed, or an error reached the \<open>catch\<close>), \<open>Inr\<close> with the next candidate when
  the loop goes round again.
\<close>

definition loop_body ::
  "'c sendMessage \<Rightarrow> 's callTool \<Rightarrow> ('c, 's) Client \<Rightarrow> Candidate
   \<Rightarrow> ('c, 's) Client + (('c, 's) Client \<times> Candidate)" where
  "loop_body sendMessage callTool st candidate =
     (case functionCalls candidate of
        None \<Rightarrow> Inl (st\<lparr>console := console st @ [Gemini (candidate_text candidate)]\<rparr>)
      | Some calls \<Rightarrow>
          if calls = [] then Inl (st\<lparr>console := console st @ [Gemini (candidate_text candidate)]\<rparr>)
          else
            (case process_calls callTool calls (server st) (console st) [] of
               (Inl e, s', out) \<Rightarrow>
                 Inl (st\<lparr>server := s', console := out @ [Error (ToolError e)]\<rparr>)
             | (Inr toolResults, s', out) \<Rightarrow>
                 (case sendMessage (chat st) (ToolResults toolResults) of
                    (Inl err, c') \<Rightarrow>
                      Inl (st\<lparr>chat := c', server := s',
                              console := out @ [Error (ChatError err)],
                              sent := sent st @ [ToolResults toolResults]\<rparr>)
                  | (Inr candidate', c') \<Rightarrow>
                      Inr (st\<lparr>chat := c', server := s', console := out,
                              sent := sent st @ [ToolResults toolResults]\<rparr>, candidate'))))"

text \<open>
  The loop has no bound of its own, so the model runs it on fuel: \<open>None\<close> when the fuel is
  used up before the turn ends.
\<close>

fun agentic_loop ::
  "nat \<Rightarrow> 'c sendMessage \<Rightarrow> 's callTool \<Rightarrow> ('c, 's) Client \<Rightarrow> Candidate
   \<Rightarrow> ('c, 's) Client option" where
  "agentic_loop 0 sendMessage callTool st candidate = None"
| "agentic_loop (Suc fuel) sendMessage callTool st candidate =
     (case loop_body sendMessage callTool st candidate of
        Inl st' \<Rightarrow> Some st'
      | Inr (st', candidate') \<Rightarrow> agentic_loop fuel sendMessage callTool st' candidate')"

text \<open>The \<open>try\<close> block of one user turn: send the user's text, then loop.\<close>

definition turn ::
  "nat \<Rightarrow> 'c sendMessage \<Rightarrow> 's callTool \<Rightarrow> ('c, 's) Client \<Rightarrow> string
   \<Rightarrow> ('c, 's) Client option" where
  "turn fuel sendMessage callTool st userInput =
     (case sendMessage (chat st) (UserText userInput) of
        (Inl err, c') \<Rightarrow>
          Some (st\<lparr>chat := c', console := console st @ [Error (ChatError err)],
                  sent := sent st @ [UserText userInput]\<rparr>)
      | (Inr candidate, c') \<Rightarrow>
          agentic_loop fuel sendMessage callTool
            (st\<lparr>chat := c', sent := sent st @ [UserText userInput]\<rparr>) candidate)"

text \<open>
  The server of this repository behind \<open>callTool\<close>. Its state is the environment each
  call will see (random numbers and clock), the number of calls served, and what it wrote
  to standard error.
\<close>

record Server =
  envs :: "nat \<Rightarrow> Env"
  served :: nat
  stderr :: "string list"

definition server_callTool :: "Runtime \<Rightarrow> Server callTool" where
  "server_callTool js s name args =
     (case dispatch (handleCalculator js) (handleGetWeather js (envs s (served s)))
             name (Some args) of
        (line, r) \<Rightarrow> (r, s\<lparr>served := served s + 1, stderr := stderr s @ [line]\<rparr>))"


section \<open>The schema translation on a store\<close>

text \<open>
  To say that the translation has no side effects, objects get addresses. A store is the
  list of the cells allocated so far, a cell's address its position; a value is a string,
  a type tag, a reference, or \<open>undefined\<close>. An object cell holds its prototype (\<open>None\<close>
  for \<open>Object.prototype\<close>) and its own properties, an array cell its elements.
\<close>

datatype val = VUndefined | VStr string | VRef nat | VType SchemaTypeValue

datatype cell = HObject "nat option" "(string \<times> val) list" | HArray "val list"

type_synonym store = "cell list"

definition cell_at :: "store \<Rightarrow> nat \<Rightarrow> cell option" where
  "cell_at h a = (if a < length h then Some (h ! a) else None)"

text \<open>
  \<open>v.k\<close>, for the keys the translation reads, none of which \<open>Object.prototype\<close> has:
  the object's own property, \<open>undefined\<close> when it has none of that name. The model stops
  (\<open>None\<close>) when \<open>v\<close> is not an object, or is an object with a prototype of its own (the
  input is not a tool as JSON gives it).
\<close>

definition get_prop :: "store \<Rightarrow> val \<Rightarrow> string \<Rightarrow> val option" where
  "get_prop h v k =
     (case v of
        VRef a \<Rightarrow>
          (case cell_at h a of
             Some (HObject None kvs) \<Rightarrow>
               Some (case map_of kvs k of None \<Rightarrow> VUndefined | Some x \<Rightarrow> x)
           | _ \<Rightarrow> None)
      | _ \<Rightarrow> None)"

text \<open>\<open>obj[key] = v\<close> on the object at address \<open>a\<close>; the key \<open>__proto__\<close> sets the prototype.\<close>

definition set_prop :: "store \<Rightarrow> nat \<Rightarrow> string \<Rightarrow> val \<Rightarrow> store option" where
  "set_prop h a key v =
     (case cell_at h a of
        Some (HObject p kvs) \<Rightarrow>
          Some (h[a := (if key = ''__proto__''
                        then HObject (case v of VRef q \<Rightarrow> Some q | _ \<Rightarrow> p) kvs
                        else HObject p (AList.update key v kvs))])
      | _ \<Rightarrow> None)"

definition nullish_or :: "val \<Rightarrow> val \<Rightarrow> val" where
  "nullish_or v d = (if v = VUndefined then d else v)"

fun truthy :: "val \<Rightarrow> bool" where
  "truthy VUndefined = False"
| "truthy (VStr s) = (s \<noteq> [])"
| "truthy (VRef a) = True"
| "truthy (VType t) = True"

text \<open>The \<open>for\<close> loop of \<open>mcpToolToGeminiFn\<close>: for each entry a new object is allocated and
  stored under the key in the object at \<open>props\<close>.\<close>

fun translate_entries_store :: "store \<Rightarrow> nat \<Rightarrow> (string \<times> val) list \<Rightarrow> store option" where
  "translate_entries_store h props [] = Some h"
| "translate_entries_store h props ((key, v) # rest) =
     do {
       t \<leftarrow> get_prop h v ''type'';
       ty \<leftarrow> (case t of VStr s \<Rightarrow> Some (toGeminiSchemaType s) | _ \<Rightarrow> None);
       d \<leftarrow> get_prop h v ''description'';
       e \<leftarrow> get_prop h v ''enum'';
       h' \<leftarrow> set_prop
              (h @ [HObject None
                      ([(''type'', VType ty), (''description'', nullish_or d (VStr []))]
                       @ (if truthy e then [(''enum'', e)] else []))])
              props key (VRef (length h));
       translate_entries_store h' props rest
     }"

text \<open>\<open>mcpToolToGeminiFn\<close>, statement by statement: the result is the reference to the new
  declaration and the store after the call.\<close>

definition mcpToolToGeminiFn_store :: "store \<Rightarrow> val \<Rightarrow> (val \<times> store) option" where
  "mcpToolToGeminiFn_store h tool =
     do {
       schema \<leftarrow> get_prop h tool ''inputSchema'';
       req \<leftarrow> get_prop h schema ''required'';
       let props = length h;
       let h1 = h @ [HObject None []];
       let required = (if req = VUndefined then VRef (length h1) else req);
       let h2 = (if req = VUndefined then h1 @ [HArray []] else h1);
       let parameters = length h2;
       let h3 = h2 @ [HObject None [(''type'', VType (Type OBJECT)),
                                    (''properties'', VRef props),
                                    (''required'', required)]];
       sp \<leftarrow> get_prop h3 schema ''properties'';
       h4 \<leftarrow> (if truthy sp
               then (case sp of
                       VRef p \<Rightarrow>
                         (case cell_at h3 p of
                            Some (HObject pr entries) \<Rightarrow> translate_entries_store h3 props entries
                          | _ \<Rightarrow> None)
                     | _ \<Rightarrow> None)
               else Some h3);
       name \<leftarrow> get_prop h4 tool ''name'';
       desc \<leftarrow> get_prop h4 tool ''description'';
       Some (VRef (length h4),
             h4 @ [HObject None [(''name'', name),
                                 (''description'', nullish_or desc (VStr [])),
                                 (''parameters'', VRef parameters)]])
     }"

text \<open>Reading a tool and a declaration back from the store.\<close>

fun read_string :: "val \<Rightarrow> string option" where
  "read_string (VStr s) = Some s"
| "read_string v = None"

fun read_type :: "val \<Rightarrow> SchemaTypeValue option" where
  "read_type (VType t) = Some t"
| "read_type v = None"

definition read_optional :: "(val \<Rightarrow> 'a option) \<Rightarrow> val \<Rightarrow> 'a option option" where
  "read_optional rd v = (if v = VUndefined then Some None else map_option Some (rd v))"

fun read_all :: "(val \<Rightarrow> 'a option) \<Rightarrow> val list \<Rightarrow> 'a list option" where
  "read_all rd [] = Some []"
| "read_all rd (v # vs) = do { x \<leftarrow> rd v; xs \<leftarrow> read_all rd vs; Some (x # xs) }"

definition read_strings :: "store \<Rightarrow> val \<Rightarrow> string list option" where
  "read_strings h v =
     (case v of
        VRef a \<Rightarrow> (case cell_at h a of Some (HArray vs) \<Rightarrow> read_all read_string vs | _ \<Rightarrow> None)
      | _ \<Rightarrow> None)"

definition read_object :: "store \<Rightarrow> val \<Rightarrow> (string \<times> val) list option" where
  "read_object h v =
     (case v of
        VRef a \<Rightarrow> (case cell_at h a of Some (HObject p kvs) \<Rightarrow> Some kvs | _ \<Rightarrow> None)
      | _ \<Rightarrow> None)"

fun read_entries :: "(val \<Rightarrow> 'a option) \<Rightarrow> (string \<times> val) list \<Rightarrow> (string \<times> 'a) list option" where
  "read_entries rd [] = Some []"
| "read_entries rd ((k, v) # kvs) =
     do { x \<leftarrow> rd v; xs \<leftarrow> read_entries rd kvs; Some ((k, x) # xs) }"

definition read_property :: "store \<Rightarrow> val \<Rightarrow> PropertySchema option" where
  "read_property h v =
     do {
       t \<leftarrow> get_prop h v ''type'';
       t' \<leftarrow> read_string t;
       d \<leftarrow> get_prop h v ''description'';
       d' \<leftarrow> read_optional read_string d;
       e \<leftarrow> get_prop h v ''enum'';
       e' \<leftarrow> read_optional (read_strings h) e;
       Some \<lparr>prop_type = t', prop_description = d', prop_enum = e'\<rparr>
     }"

definition read_properties :: "store \<Rightarrow> val \<Rightarrow> (string \<times> PropertySchema) list option" where
  "read_properties h v = do { kvs \<leftarrow> read_object h v; read_entries (read_property h) kvs }"

definition read_schema :: "store \<Rightarrow> val \<Rightarrow> InputSchema option" where
  "read_schema h v =
     do {
       p \<leftarrow> get_prop h v ''properties'';
       p' \<leftarrow> read_optional (read_properties h) p;
       r \<leftarrow> get_prop h v ''required'';
       r' \<leftarrow> read_optional (read_strings h) r;
       Some \<lparr>properties = p', required = r'\<rparr>
     }"

definition read_tool :: "store \<Rightarrow> val \<Rightarrow> McpTool option" where
  "read_tool h v =
     do {
       n \<leftarrow> get_prop h v ''name'';
       n' \<leftarrow> read_string n;
       d \<leftarrow> get_prop h v ''description'';
       d' \<leftarrow> read_optional read_string d;
       s \<leftarrow> get_prop h v ''inputSchema'';
       s' \<leftarrow> read_schema h s;
       Some \<lparr>tool_name = n', tool_description = d', inputSchema = s'\<rparr>
     }"

definition read_gproperty :: "store \<Rightarrow> val \<Rightarrow> GeminiProperty option" where
  "read_gproperty h v =
     do {
       t \<leftarrow> get_prop h v ''type'';
       t' \<leftarrow> read_type t;
       d \<leftarrow> get_prop h v ''description'';
       d' \<leftarrow> read_string d;
       e \<leftarrow> get_prop h v ''enum'';
       e' \<leftarrow> read_optional (read_strings h) e;
       Some \<lparr>gp_type = t', gp_description = d', gp_enum = e'\<rparr>
     }"

definition read_parameters :: "store \<Rightarrow> val \<Rightarrow> GeminiParameters option" where
  "read_parameters h v =
     do {
       t \<leftarrow> get_prop h v ''type'';
       t' \<leftarrow> (case t of VType (Type ty) \<Rightarrow> Some ty | _ \<Rightarrow> None);
       p \<leftarrow> get_prop h v ''properties'';
       kvs \<leftarrow> read_object h p;
       p' \<leftarrow> read_entries (read_gproperty h) kvs;
       r \<leftarrow> get_prop h v ''required'';
       r' \<leftarrow> read_strings h r;
       Some \<lparr>params_type = t', params_properties = p', params_required = r'\<rparr>
     }"

definition read_declaration :: "store \<Rightarrow> val \<Rightarrow> FunctionDeclaration option" where
  "read_declaration h v =
     do {
       n \<leftarrow> get_prop h v ''name'';
       n' \<leftarrow> read_string n;
       d \<leftarrow> get_prop h v ''description'';
       d' \<leftarrow> read_string d;
       p \<leftarrow> get_prop h v ''parameters'';
       p' \<leftarrow> read_parameters h p;
       Some \<lparr>fn_name = n', fn_description = d', fn_parameters = p'\<rparr>
     }"

text \<open>The weather tool in a store: the tool at address 6.\<close>

definition weather_store :: store where
  "weather_store =
     [HArray [VStr ''celsius'', VStr ''fahrenheit''],
      HObject None [(''type'', VStr ''string''),
                    (''description'', VStr ''Name of the city to get weather for'')],
      HObject None [(''type'', VStr ''string''), (''enum'', VRef 0),
                    (''description'', VStr ''Temperature unit (default: celsius)'')],
      HObject None [(''city'', VRef 1), (''unit'', VRef 2)],
      HArray [VStr ''city''],
      HObject None [(''type'', VStr ''object''), (''properties'', VRef 3),
                    (''required'', VRef 4)],
      HObject None
        [(''name'', VStr ''get_weather''),
         (''description'', VStr
            ''Get the current weather for a city. Returns temperature, humidity, and conditions.''),
         (''inputSchema'', VRef 5)]]"

text \<open>\<open>grows_except Q h h'\<close>: from \<open>h\<close> to \<open>h'\<close> cells were added and the cell at \<open>Q\<close> may
  have changed; every other cell is as it was.\<close>

definition grows_except :: "nat \<Rightarrow> store \<Rightarrow> store \<Rightarrow> bool" where
  "grows_except Q h h' = (length h \<le> length h' \<and> (\<forall>a < length h. a \<noteq> Q \<longrightarrow> h' ! a = h ! a))"


text \<open>Translating the same tool \<open>n\<close> times, one call after the other: the declarations
  returned and the store at the end.\<close>

fun translate_times :: "nat \<Rightarrow> store \<Rightarrow> val \<Rightarrow> (val list \<times> store) option" where
  "translate_times 0 h tool = Some ([], h)"
| "translate_times (Suc n) h tool =
     (case mcpToolToGeminiFn_store h tool of
        None \<Rightarrow> None
      | Some (d, h1) \<Rightarrow>
          (case translate_times n h1 tool of
             None \<Rightarrow> None
           | Some (ds, h2) \<Rightarrow> Some (d # ds, h2)))"


section \<open>Vocabulary of the statements\<close>

text \<open>Reading a property of a JSON object, and the error code of a result.\<close>

fun member :: "json \<Rightarrow> string \<Rightarrow> json option" where
  "member (JObj kvs) k = map_of kvs k"
| "member v k = None"

definition error_code :: "McpError + 'a \<Rightarrow> ErrorCode option" where
  "error_code r = (case r of Inl e \<Rightarrow> Some (code e) | Inr x \<Rightarrow> None)"

text \<open>A result is a validation failure when it is the error the handlers throw after
  \<open>safeParse\<close> fails: code \<open>InvalidParams\<close>, message \<open>Invalid input: ...\<close>.\<close>

definition is_validation_error :: "McpError + 'a \<Rightarrow> bool" where
  "is_validation_error r =
     (case r of
        Inl e \<Rightarrow> code e = InvalidParams \<and> prefix ''Invalid input: '' (message e)
      | Inr x \<Rightarrow> False)"



text \<open>The arguments \<open>{operation, a, b}\<close> of a calculator call.\<close>

definition calculator_args :: "string \<Rightarrow> json \<Rightarrow> json \<Rightarrow> json option" where
  "calculator_args operation a b =
     Some (JObj [(''operation'', JStr operation), (''a'', a), (''b'', b)])"

text \<open>A fixed runtime and environment for the concrete instances.\<close>

definition js0 :: Runtime where
  "js0 = \<lparr>round_to_double = (\<lambda>x. NaN), double_to_string = (\<lambda>x. []),
           upper_beyond = (\<lambda>c. [c])\<rparr>"

definition env0 :: Env where
  "env0 = \<lparr>random1 = 1 / 2, random2 = 1 / 3, random3 = 3 / 4,
            now = ''2025-01-01T00:00:00.000Z''\<rparr>"

text \<open>
  What IEEE 754 guarantees of the rounding to the nearest double, on a range that covers the
  temperatures: the result is finite and its relative error is at most \<open>2^-53\<close>.
\<close>

definition rounds_nearest :: "Runtime \<Rightarrow> bool" where
  "rounds_nearest js =
     (\<forall>x. 1 / 4 \<le> \<bar>x\<bar> \<and> \<bar>x\<bar> \<le> 4096 \<longrightarrow>
          (\<exists>y. round_to_double js x = Finite y \<and> \<bar>y - x\<bar> \<le> \<bar>x\<bar> / 2 ^ 53))"

text \<open>
  What it means for an argument mapping to satisfy a tool's declared \<open>inputSchema\<close>, read
  as JSON Schema: a property that is present has the declared type and, where an
  enumeration is declared, one of its values; every required property is present.
  \<open>violated tool kvs f\<close> says that field \<open>f\<close> breaks one of these.
\<close>

definition has_type :: "string \<Rightarrow> json \<Rightarrow> bool" where
  "has_type t v =
     (case v of
        JNull \<Rightarrow> t = ''null''
      | JBool b \<Rightarrow> t = ''boolean''
      | JNum r \<Rightarrow> t = ''number'' \<or> (t = ''integer'' \<and> r = of_int \<lfloor>r\<rfloor>)
      | JStr s \<Rightarrow> t = ''string''
      | JArr xs \<Rightarrow> t = ''array''
      | JObj kvs \<Rightarrow> t = ''object'')"

definition property_holds :: "PropertySchema \<Rightarrow> json \<Rightarrow> bool" where
  "property_holds p v =
     (has_type (prop_type p) v
      \<and> (case prop_enum p of None \<Rightarrow> True | Some options \<Rightarrow> v \<in> set (map JStr options)))"

definition declared_properties :: "McpTool \<Rightarrow> (string \<times> PropertySchema) list" where
  "declared_properties tool =
     (case properties (inputSchema tool) of None \<Rightarrow> [] | Some ps \<Rightarrow> ps)"

definition required_fields :: "McpTool \<Rightarrow> string list" where
  "required_fields tool = (case required (inputSchema tool) of None \<Rightarrow> [] | Some r \<Rightarrow> r)"

definition violated :: "McpTool \<Rightarrow> (string \<times> json) list \<Rightarrow> string \<Rightarrow> bool" where
  "violated tool kvs f =
     (case map_of kvs f of
        None \<Rightarrow> f \<in> set (required_fields tool)
      | Some v \<Rightarrow>
          (case map_of (declared_properties tool) f of
             None \<Rightarrow> False
           | Some p \<Rightarrow> \<not> property_holds p v))"

definition conforms :: "McpTool \<Rightarrow> (string \<times> json) list \<Rightarrow> bool" where
  "conforms tool kvs =
     list_all (\<lambda>f. \<not> violated tool kvs f)
       (required_fields tool @ map fst (declared_properties tool))"


text \<open>
  The reference for "in the order listed, one after the other": the outcome of each call
  when every call acts on the server state the calls before it left behind, and that
  state at the end.
\<close>

fun outcomes :: "'s callTool \<Rightarrow> 's \<Rightarrow> FunctionCall list \<Rightarrow> (McpError + CallToolResult) list" where
  "outcomes callTool s [] = []"
| "outcomes callTool s (c # cs) =
     fst (callTool s (call_name c) (call_args c))
     # outcomes callTool (snd (callTool s (call_name c) (call_args c))) cs"

fun state_after :: "'s callTool \<Rightarrow> 's \<Rightarrow> FunctionCall list \<Rightarrow> 's" where
  "state_after callTool s [] = s"
| "state_after callTool s (c # cs) =
     state_after callTool (snd (callTool s (call_name c) (call_args c))) cs"

fun first_error :: "(McpError + 'a) list \<Rightarrow> McpError option" where
  "first_error [] = None"
| "first_error (Inl e # rs) = Some e"
| "first_error (Inr x # rs) = first_error rs"

text \<open>The number of calls that succeed before the first one that fails.\<close>

fun succeeded :: "(McpError + 'a) list \<Rightarrow> nat" where
  "succeeded [] = 0"
| "succeeded (Inl e # rs) = 0"
| "succeeded (Inr x # rs) = Suc (succeeded rs)"

text \<open>The batch that pairs each call, by position and by name, with its own result.\<close>

fun responses :: "FunctionCall list \<Rightarrow> (McpError + CallToolResult) list \<Rightarrow> FunctionResponse list" where
  "responses (c # cs) (Inr content # rs) =
     FunctionResponse (call_name c) (resultText content) # responses cs rs"
| "responses cs rs = []"

text \<open>What the loop prints for the calls: both lines for a call that succeeds, the first
  line only for the call that fails, nothing for the calls after it.\<close>

fun printed :: "FunctionCall list \<Rightarrow> (McpError + CallToolResult) list \<Rightarrow> ConsoleLine list" where
  "printed (c # cs) (Inr content # rs) =
     [CallingTool (call_name c) (call_args c), Result (resultText content)] @ printed cs rs"
| "printed (c # cs) (Inl e # rs) = [CallingTool (call_name c) (call_args c)]"
| "printed cs rs = []"

fun client_of :: "('c, 's) Client + (('c, 's) Client \<times> Candidate) \<Rightarrow> ('c, 's) Client" where
  "client_of (Inl st) = st"
| "client_of (Inr (st, candidate)) = st"

text \<open>A server, a chat that always answers with plain text, a client and four calls, for
  the concrete instances.\<close>

definition server0 :: Server where
  "server0 = \<lparr>envs = (\<lambda>n. env0), served = 0, stderr = []\<rparr>"

definition silent_chat :: "nat sendMessage" where
  "silent_chat c m = (Inr (Candidate None ''ok''), Suc c)"

definition client0 :: "(nat, Server) Client" where
  "client0 = \<lparr>chat = 0, server = server0, console = [], sent = []\<rparr>"

definition multiply_call :: FunctionCall where
  "multiply_call =
     FunctionCall ''calculator''
       (JObj [(''operation'', JStr ''multiply''), (''a'', JNum 25), (''b'', JNum 4)])"

definition add_call :: FunctionCall where
  "add_call =
     FunctionCall ''calculator''
       (JObj [(''operation'', JStr ''add''), (''a'', JNum 1), (''b'', JNum 2)])"

definition divide_by_zero_call :: FunctionCall where
  "divide_by_zero_call =
     FunctionCall ''calculator''
       (JObj [(''operation'', JStr ''divide''), (''a'', JNum 1), (''b'', JNum 0)])"

definition unknown_call :: FunctionCall where
  "unknown_call = FunctionCall ''nope'' (JObj [])"


text \<open>A tool declaration with a field of an unrecognized kind.\<close>

definition odd_tool :: McpTool where
  "odd_tool =
     \<lparr>tool_name = ''odd'',
      tool_description = Some ''A tool whose field has an unrecognized type'',
      inputSchema =
        \<lparr>properties = Some
           [(''x'', \<lparr>prop_type = ''constructor'', prop_description = Some ''A field'',
                     prop_enum = None\<rparr>)],
         required = Some [''x'']\<rparr>\<rparr>"


section \<open>The calculator\<close>

lemmas calculator_defs =
  invokeTool_def dispatch_def handleCalculator_def CalculatorInputSchema_safeParse_def
  z_enum_def z_number_def calculator_operations_def calculator_args_def

text \<open>
  Claim C9. Invoking the calculator with \<open>{operation: "multiply", a: 25, b: 4}\<close> succeeds
  and returns the text \<open>25 multiply 4 = 100\<close>, whose number is 100, whatever the
  runtime's rounding and printing of other numbers and whatever the environment.
\<close>

theorem calculator_multiply_25_by_4:
  "invokeTool js env ''calculator'' (calculator_args ''multiply'' (JNum 25) (JNum 4))
   = Inr [ContentItem ''text'' ''25 multiply 4 = 100'']"
  by (simp add: calculator_defs calculator_text_def to_double_def ToString_def
      Number_toString_def digits.simps)

text \<open>
  Claim C3, as the code has it. Dividing by zero passes validation and is refused by the
  handler itself; the error is returned as a value, with the message
  \<open>Cannot divide by zero\<close> and the code \<open>InvalidParams\<close>.
\<close>

theorem divide_by_zero_is_InvalidParams:
  "CalculatorInputSchema_safeParse (calculator_args ''divide'' (JNum x) (JNum 0))
     = Inr (CalculatorInput ''divide'' x 0)
   \<and> invokeTool js env ''calculator'' (calculator_args ''divide'' (JNum x) (JNum 0))
     = Inl (McpError InvalidParams ''Cannot divide by zero'')
   \<and> \<not> is_validation_error
         (invokeTool js env ''calculator'' (calculator_args ''divide'' (JNum x) (JNum 0)))"
  by (simp add: calculator_defs is_validation_error_def)

text \<open>
  Counterexample to claim C3 as stated: the error of \<open>{operation: "divide", a: 1, b: 0}\<close> has the
  same kind (error code) as the error of the ill-typed \<open>{operation: "add", a: "x", b: 2}\<close>.
\<close>

theorem divide_by_zero_counterexample:
  "error_code (invokeTool js0 env0 ''calculator''
                 (calculator_args ''divide'' (JNum 1) (JNum 0))) = Some InvalidParams
   \<and> error_code (invokeTool js0 env0 ''calculator''
                 (calculator_args ''add'' (JStr ''x'') (JNum 2))) = Some InvalidParams"
  by (simp add: calculator_defs error_code_def)


section \<open>Unknown tools\<close>

text \<open>
  Claim C6. A name other than \<open>calculator\<close> and \<open>get_weather\<close> is answered with
  \<open>MethodNotFound\<close> and the message \<open>Unknown tool: \<close> followed by that name, whatever the
  arguments; the answer is the same for any two handlers, so neither is run.
\<close>

theorem unknown_tool_NotFound:
  assumes "name \<noteq> ''calculator''" and "name \<noteq> ''get_weather''"
  shows "snd (dispatch calculator get_weather name args)
           = Inl (McpError MethodNotFound (''Unknown tool: '' @ name))
         \<and> invokeTool js env name args
           = Inl (McpError MethodNotFound (''Unknown tool: '' @ name))"
  using assms by (simp add: dispatch_def invokeTool_def)

theorem unknown_tool_NotFound_witness:
  "''nope'' \<noteq> ''calculator'' \<and> ''nope'' \<noteq> ''get_weather''
   \<and> invokeTool js0 env0 ''nope'' None
     = Inl (McpError MethodNotFound ''Unknown tool: nope'')"
  using unknown_tool_NotFound [of "''nope''" undefined undefined None js0 env0] by simp


section \<open>The weather report\<close>

lemmas weather_defs =
  invokeTool_def dispatch_def handleGetWeather_def WeatherInputSchema_safeParse_def
  z_enum_def z_string_min_def z_default_def weather_units_def

lemma get_weather_valid:
  assumes "map_of kvs ''city'' = Some (JStr city)" and "city \<noteq> []"
    and "map_of kvs ''unit'' = None \<and> unit = ''celsius''
         \<or> map_of kvs ''unit'' = Some (JStr unit) \<and> unit \<in> set weather_units"
  shows "invokeTool js env ''get_weather'' (Some (JObj kvs))
         = Inr [ContentItem ''text''
                  (stringify (double_to_string js) [] (weatherReport js env city unit))]"
  using assms by (auto simp: weather_defs)

text \<open>Every city has a temperature, stored or random, unless its lower-case form names a
  member of \<open>Object.prototype\<close>.\<close>

lemma weather_data_has_temperature:
  "key \<notin> set Object_prototype_keys \<Longrightarrow> \<exists>t. tempC (weather_data js env key) = Some t"
  by (auto simp: weather_data_def MOCK_WEATHER_def random_weather_def split: option.splits)

text \<open>Without a \<open>unit\<close> the report is the one for \<open>celsius\<close>.\<close>

lemma unit_defaults_to_celsius:
  assumes "map_of kvs ''city'' = Some (JStr city)" and "city \<noteq> []"
    and "map_of kvs ''unit'' = None"
  shows "invokeTool js env ''get_weather'' (Some (JObj kvs))
         = Inr [ContentItem ''text''
                  (stringify (double_to_string js) [] (weatherReport js env city ''celsius''))]"
  using assms by (intro get_weather_valid) auto

text \<open>For a city of the table, in any letter case, the temperature reported in Celsius is
  the stored one.\<close>

lemma stored_temperature_reported:
  assumes "map_of MOCK_WEATHER (toLowerCase city) = Some d"
  shows "member (weatherReport js env city ''celsius'') ''temperature''
         = Some (JStr (ToString (double_to_string js) (tempC d) @ [degree, CHR ''C'']))"
  using assms by (simp add: weatherReport_def Let_def weather_data_def temp_of_def unitSymbol_def)

lemma toLowerCase_Tokyo: "toLowerCase ''Tokyo'' = ''tokyo''"
  by code_simp

lemma tokyo_celsius:
  "member (weatherReport js env ''Tokyo'' ''celsius'') ''temperature''
   = Some (JStr [CHR ''2'', CHR ''2'', degree, CHR ''C''])"
proof -
  have "map_of MOCK_WEATHER (toLowerCase ''Tokyo'')
        = Some \<lparr>tempC = Some (Finite 22), humidity = Some (Finite 55),
                 condition = Some ''Partly Cloudy''\<rparr>"
    unfolding toLowerCase_Tokyo by (simp add: MOCK_WEATHER_def)
  from stored_temperature_reported [OF this, of js env] show ?thesis
    by (simp add: ToString_def Number_toString_def digits.simps)
qed

text \<open>
  The conversion to Fahrenheit. The double computation of \<open>t * 1.8 + 32\<close> rounds three
  times (the literal, the product, the sum); for an integer \<open>t\<close> from 1 to 1000 the exact
  value lies at least 0.1 away from every point where \<open>Math.round\<close> changes, far more than
  the three roundings can add up to, so the rounded double is the rounded exact value.
\<close>

lemma to_double_near:
  assumes "rounds_nearest js" and "1 / 4 \<le> x" and "x \<le> 4096"
  shows "\<exists>y. to_double js x = Finite y \<and> \<bar>y - x\<bar> \<le> x / 2 ^ 53"
proof (cases "x = of_int \<lfloor>x\<rfloor> \<and> \<bar>x\<bar> \<le> 2 ^ 53")
  case True
  then have "to_double js x = Finite x" by (simp add: to_double_def)
  with assms(2) show ?thesis by simp
next
  case False
  then have "to_double js x = round_to_double js x" by (auto simp: to_double_def)
  moreover have "\<bar>x\<bar> = x" using assms(2) by simp
  moreover have "1 / 4 \<le> \<bar>x\<bar> \<and> \<bar>x\<bar> \<le> 4096" using assms(2,3) by simp
  with assms(1) have "\<exists>y. round_to_double js x = Finite y \<and> \<bar>y - x\<bar> \<le> \<bar>x\<bar> / 2 ^ 53"
    unfolding rounds_nearest_def by blast
  ultimately show ?thesis by simp
qed

lemma fahrenheit_of_integer:
  assumes r: "rounds_nearest js" and t: "1 \<le> t" "t \<le> 1000"
  shows "Math_round (Number_add js
           (Number_multiply js (Finite (of_int t)) (to_double js (18 / 10))) (Finite 32))
         = Finite (of_int ((18 * t + 325) div 10))"
proof -
  define e :: rat where "e = 1 / 2 ^ 53"
  have e: "0 < e" "e \<le> 1 / 1000000000000" by (simp_all add: e_def)
  define T :: rat where "T = of_int t"
  have T: "1 \<le> T" "T \<le> 1000" using t by (simp_all add: T_def)
  obtain c where c: "to_double js (18 / 10) = Finite c" "\<bar>c - 18 / 10\<bar> \<le> (18 / 10) * e"
    using to_double_near [OF r, of "18 / 10"] by (auto simp: e_def)
  then have cb: "18 / 10 - 2 * e \<le> c" "c \<le> 18 / 10 + 2 * e" using e by linarith+
  have x1l: "T * (18 / 10 - 2 * e) \<le> T * c" using cb(1) T by (intro mult_left_mono) auto
  have x1u: "T * c \<le> T * (18 / 10 + 2 * e)" using cb(2) T by (intro mult_left_mono) auto
  have Te: "0 \<le> T * e" "T * e \<le> 1000 * e" using T e by (auto intro: mult_right_mono)
  have x1: "18 / 10 * T - 2000 * e \<le> T * c" "T * c \<le> 18 / 10 * T + 2000 * e"
    using x1l x1u Te by (simp_all add: algebra_simps)
  have x1r: "1 / 4 \<le> T * c" "T * c \<le> 4096" using x1 T e by linarith+
  obtain p where p: "to_double js (T * c) = Finite p" "\<bar>p - T * c\<bar> \<le> (T * c) * e"
    using to_double_near [OF r x1r] by (auto simp: e_def)
  have "(T * c) * e \<le> 4096 * e" using x1r e by (intro mult_right_mono) auto
  with p(2) have pb: "T * c - 4096 * e \<le> p" "p \<le> T * c + 4096 * e" by linarith+
  have x2r: "1 / 4 \<le> p + 32" "p + 32 \<le> 4096" using pb x1 T e by linarith+
  obtain s where s: "to_double js (p + 32) = Finite s" "\<bar>s - (p + 32)\<bar> \<le> (p + 32) * e"
    using to_double_near [OF r x2r] by (auto simp: e_def)
  have "(p + 32) * e \<le> 4096 * e" using x2r e by (intro mult_right_mono) auto
  with s(2) have sb: "p + 32 - 4096 * e \<le> s" "s \<le> p + 32 + 4096 * e" by linarith+
  have close: "18 / 10 * T + 32 - 1 / 20 \<le> s" "s \<le> 18 / 10 * T + 32 + 1 / 20"
    using sb pb x1 e by linarith+
  define q where "q = (18 * t + 325) div 10"
  define m where "m = (18 * t + 325) mod 10"
  have qm: "18 * t + 325 = 10 * q + m" by (simp add: q_def m_def)
  have "m mod 2 = 1" unfolding m_def by presburger
  moreover have "0 \<le> m" "m < 10" by (simp_all add: m_def)
  ultimately have mb: "1 \<le> m" "m \<le> 9" by presburger+
  have "(18 * T + 325 :: rat) = 10 * of_int q + of_int m"
    using arg_cong [OF qm, of "of_int :: int \<Rightarrow> rat"] by (simp add: T_def)
  moreover have "(1::rat) \<le> of_int m" "(of_int m :: rat) \<le> 9" using mb by simp_all
  ultimately have fl: "of_int q \<le> s + 1 / 2" "s + 1 / 2 < of_int q + 1"
    using close by linarith+
  then have "\<lfloor>s + 1 / 2\<rfloor> = q" by (simp add: floor_unique)
  then show ?thesis
    using c(1) p(1) s(1)
    by (simp add: Number_multiply_def Number_add_def Math_round_def T_def q_def)
qed

lemma round_as_div:
  "\<lfloor>(of_int t :: rat) * (18 / 10) + 32 + 1 / 2\<rfloor> = (18 * t + 325) div 10"
proof -
  have "(of_int t :: rat) * (18 / 10) + 32 + 1 / 2 = of_int (18 * t + 325) / of_int 10"
    by simp
  then show ?thesis
    by (simp only: floor_divide_of_int_eq)
qed

lemma fahrenheit_rounds:
  assumes "rounds_nearest js" and "1 \<le> t" and "t \<le> 1000"
  shows "Math_round (Number_add js
           (Number_multiply js (Finite (of_int t)) (to_double js (18 / 10))) (Finite 32))
         = Finite (of_int \<lfloor>(of_int t :: rat) * (18 / 10) + 32 + 1 / 2\<rfloor>)"
  unfolding round_as_div using assms by (rule fahrenheit_of_integer)

lemma exact_rounds_nearest:
  "rounds_nearest \<lparr>round_to_double = Finite, double_to_string = d, upper_beyond = u\<rparr>"
  by (simp add: rounds_nearest_def)

text \<open>For a city whose data has the integer temperature \<open>t\<close>, the temperature reported in
  Fahrenheit is \<open>t * 1.8 + 32\<close> rounded to the nearest integer.\<close>

lemma fahrenheit_temperature_reported:
  assumes "rounds_nearest js"
    and "tempC (weather_data js env (toLowerCase city)) = Some (Finite (of_int t))"
    and "1 \<le> t" and "t \<le> 1000"
  shows "member (weatherReport js env city ''fahrenheit'') ''temperature''
         = Some (JStr (ToString (double_to_string js)
                         (Some (Finite (of_int \<lfloor>(of_int t :: rat) * (18 / 10) + 32 + 1 / 2\<rfloor>)))
                       @ [degree, CHR ''F'']))"
  using fahrenheit_rounds [OF assms(1,3,4)] assms(2)
  by (simp add: weatherReport_def Let_def temp_of_def unitSymbol_def ToNumber_def)

lemma tokyo_fahrenheit:
  assumes "rounds_nearest js"
  shows "member (weatherReport js env ''Tokyo'' ''fahrenheit'') ''temperature''
         = Some (JStr [CHR ''7'', CHR ''2'', degree, CHR ''F''])"
proof -
  have "tempC (weather_data js env (toLowerCase ''Tokyo'')) = Some (Finite (of_int 22))"
    unfolding toLowerCase_Tokyo by (simp add: weather_data_def MOCK_WEATHER_def)
  from fahrenheit_temperature_reported [OF assms this] show ?thesis
    unfolding round_as_div by (simp add: ToString_def Number_toString_def digits.simps)
qed

text \<open>The key \<open>constructor\<close> is not in the table and names a member of \<open>Object.prototype\<close>:
  the lookup yields that member and the fallback is not taken.\<close>

lemma toLowerCase_constructor: "toLowerCase ''constructor'' = ''constructor''"
  by code_simp

lemma constructor_data: "weather_data js env (toLowerCase ''constructor'') = inherited_member"
  unfolding toLowerCase_constructor
  by (simp add: weather_data_def MOCK_WEATHER_def Object_prototype_keys_def)

lemma constructor_city:
  "toUpperCase beyond (take 1 ''constructor'') @ drop 1 ''constructor'' = ''Constructor''"
  by (simp add: toUpperCase_def upper_char_def lower_letters_def upper_letters_def)

text \<open>
  Claim C10, at the input where the code departs from it. The call
  \<open>get_weather {city: "constructor"}\<close> passes validation and is answered with a report,
  for \<open>celsius\<close> as no unit is given. The city has no stored temperature: the report shows
  \<open>undefined\<close> followed by the degree sign and \<open>C\<close>, and with the unit \<open>fahrenheit\<close> it
  shows \<open>NaN\<close> followed by the degree sign and \<open>F\<close>.
\<close>

theorem get_weather_constructor_has_no_temperature:
  "invokeTool js env ''get_weather'' (Some (JObj [(''city'', JStr ''constructor'')]))
     = Inr [ContentItem ''text''
              (stringify (double_to_string js) []
                 (weatherReport js env ''constructor'' ''celsius''))]
   \<and> weatherReport js env ''constructor'' ''celsius''
     = JObj [(''city'', JStr ''Constructor''),
             (''temperature'', JStr (''undefined'' @ [degree, CHR ''C''])),
             (''humidity'', JStr ''undefined%''),
             (''timestamp'', JStr (now env))]
   \<and> invokeTool js env ''get_weather''
       (Some (JObj [(''city'', JStr ''constructor''), (''unit'', JStr ''fahrenheit'')]))
     = Inr [ContentItem ''text''
              (stringify (double_to_string js) []
                 (weatherReport js env ''constructor'' ''fahrenheit''))]
   \<and> weatherReport js env ''constructor'' ''fahrenheit''
     = JObj [(''city'', JStr ''Constructor''),
             (''temperature'', JStr (''NaN'' @ [degree, CHR ''F''])),
             (''humidity'', JStr ''undefined%''),
             (''timestamp'', JStr (now env))]"
proof (intro conjI)
  show "invokeTool js env ''get_weather'' (Some (JObj [(''city'', JStr ''constructor'')]))
        = Inr [ContentItem ''text''
                 (stringify (double_to_string js) []
                    (weatherReport js env ''constructor'' ''celsius''))]"
    by (intro get_weather_valid) auto
  show "invokeTool js env ''get_weather''
          (Some (JObj [(''city'', JStr ''constructor''), (''unit'', JStr ''fahrenheit'')]))
        = Inr [ContentItem ''text''
                 (stringify (double_to_string js) []
                    (weatherReport js env ''constructor'' ''fahrenheit''))]"
    by (intro get_weather_valid) (auto simp: weather_units_def)
  show "weatherReport js env ''constructor'' ''celsius''
        = JObj [(''city'', JStr ''Constructor''),
                (''temperature'', JStr (''undefined'' @ [degree, CHR ''C''])),
                (''humidity'', JStr ''undefined%''),
                (''timestamp'', JStr (now env))]"
    unfolding weatherReport_def constructor_data constructor_city
    by (simp add: inherited_member_def temp_of_def unitSymbol_def ToString_def)
  show "weatherReport js env ''constructor'' ''fahrenheit''
        = JObj [(''city'', JStr ''Constructor''),
                (''temperature'', JStr (''NaN'' @ [degree, CHR ''F''])),
                (''humidity'', JStr ''undefined%''),
                (''timestamp'', JStr (now env))]"
    unfolding weatherReport_def constructor_data constructor_city
    by (simp add: inherited_member_def temp_of_def unitSymbol_def ToString_def ToNumber_def
        Number_multiply_def Number_add_def Math_round_def)
qed


section \<open>Validation failures name the field\<close>


























section \<open>Arguments that satisfy the declared schema\<close>

lemma declared_calculator:
  "required_fields calculatorToolDefinition = [''operation'', ''a'', ''b'']"
  "map_of (declared_properties calculatorToolDefinition) ''operation''
     = Some \<lparr>prop_type = ''string'',
              prop_description = Some ''The arithmetic operation to perform'',
              prop_enum = Some [''add'', ''subtract'', ''multiply'', ''divide'']\<rparr>"
  "map_of (declared_properties calculatorToolDefinition) ''a''
     = Some \<lparr>prop_type = ''number'', prop_description = Some ''The first number'',
              prop_enum = None\<rparr>"
  "map_of (declared_properties calculatorToolDefinition) ''b''
     = Some \<lparr>prop_type = ''number'', prop_description = Some ''The second number'',
              prop_enum = None\<rparr>"
  by (simp_all add: required_fields_def declared_properties_def calculatorToolDefinition_def)

lemma declared_weather:
  "required_fields weatherToolDefinition = [''city'']"
  "map_of (declared_properties weatherToolDefinition) ''city''
     = Some \<lparr>prop_type = ''string'',
              prop_description = Some ''Name of the city to get weather for'',
              prop_enum = None\<rparr>"
  "map_of (declared_properties weatherToolDefinition) ''unit''
     = Some \<lparr>prop_type = ''string'',
              prop_description = Some ''Temperature unit (default: celsius)'',
              prop_enum = Some [''celsius'', ''fahrenheit'']\<rparr>"
  by (simp_all add: required_fields_def declared_properties_def weatherToolDefinition_def)

lemma holds_number:
  "property_holds \<lparr>prop_type = ''number'', prop_description = d, prop_enum = None\<rparr> v
   \<longleftrightarrow> (\<exists>r. v = JNum r)"
  by (cases v) (simp_all add: property_holds_def has_type_def)

lemma holds_string:
  "property_holds \<lparr>prop_type = ''string'', prop_description = d, prop_enum = None\<rparr> v
   \<longleftrightarrow> (\<exists>s. v = JStr s)"
  by (cases v) (simp_all add: property_holds_def has_type_def)

lemma holds_string_enum:
  "property_holds \<lparr>prop_type = ''string'', prop_description = d, prop_enum = Some options\<rparr> v
   \<longleftrightarrow> (\<exists>s. v = JStr s \<and> s \<in> set options)"
  by (cases v) (auto simp: property_holds_def has_type_def)

lemma calculator_conforms_cases:
  assumes "conforms calculatorToolDefinition kvs"
  shows "\<exists>operation a b. map_of kvs ''operation'' = Some (JStr operation)
           \<and> operation \<in> set calculator_operations
           \<and> map_of kvs ''a'' = Some (JNum a) \<and> map_of kvs ''b'' = Some (JNum b)"
proof -
  have nv: "\<not> violated calculatorToolDefinition kvs ''operation''"
    "\<not> violated calculatorToolDefinition kvs ''a''"
    "\<not> violated calculatorToolDefinition kvs ''b''"
    using assms by (simp_all add: conforms_def declared_calculator(1))
  from nv(1) obtain operation where "map_of kvs ''operation'' = Some (JStr operation)"
    "operation \<in> set calculator_operations"
    by (cases "map_of kvs ''operation''")
      (auto simp: violated_def declared_calculator holds_string_enum calculator_operations_def)
  moreover from nv(2) obtain a where "map_of kvs ''a'' = Some (JNum a)"
    by (cases "map_of kvs ''a''") (auto simp: violated_def declared_calculator holds_number)
  moreover from nv(3) obtain b where "map_of kvs ''b'' = Some (JNum b)"
    by (cases "map_of kvs ''b''") (auto simp: violated_def declared_calculator holds_number)
  ultimately show ?thesis by blast
qed

lemma weather_conforms_cases:
  assumes "conforms weatherToolDefinition kvs"
  shows "(\<exists>city. map_of kvs ''city'' = Some (JStr city))
         \<and> (map_of kvs ''unit'' = None
            \<or> (\<exists>unit. map_of kvs ''unit'' = Some (JStr unit) \<and> unit \<in> set weather_units))"
proof -
  have nv: "\<not> violated weatherToolDefinition kvs ''city''"
    "\<not> violated weatherToolDefinition kvs ''unit''"
    using assms
    by (simp_all add: conforms_def declared_weather(1) declared_properties_def
        weatherToolDefinition_def)
  from nv(1) have "\<exists>city. map_of kvs ''city'' = Some (JStr city)"
    by (cases "map_of kvs ''city''") (auto simp: violated_def declared_weather holds_string)
  moreover from nv(2) have "map_of kvs ''unit'' = None
      \<or> (\<exists>unit. map_of kvs ''unit'' = Some (JStr unit) \<and> unit \<in> set weather_units)"
    by (cases "map_of kvs ''unit''")
      (auto simp: violated_def declared_weather holds_string_enum weather_units_def)
  ultimately show ?thesis by blast
qed

text \<open>
  Claim C4, as the code has it. Arguments that satisfy the declared schema of the
  calculator always pass validation; the call returns a result, or, for a division by
  zero, the handler's own error. Arguments that satisfy the declared schema of
  \<open>get_weather\<close> and whose city is not the empty string pass validation and yield a
  report.
\<close>

theorem conforming_arguments_pass_validation:
  "(conforms calculatorToolDefinition kvs \<longrightarrow>
      \<not> is_validation_error (invokeTool js env ''calculator'' (Some (JObj kvs)))
      \<and> (case invokeTool js env ''calculator'' (Some (JObj kvs)) of
           Inr content \<Rightarrow> True
         | Inl e \<Rightarrow> e = McpError InvalidParams ''Cannot divide by zero''
                    \<and> map_of kvs ''operation'' = Some (JStr ''divide'')
                    \<and> map_of kvs ''b'' = Some (JNum 0)))
   \<and> (conforms weatherToolDefinition kvs \<and> map_of kvs ''city'' \<noteq> Some (JStr []) \<longrightarrow>
      (\<exists>city unit. invokeTool js env ''get_weather'' (Some (JObj kvs))
         = Inr [ContentItem ''text'' (stringify (double_to_string js) [] (weatherReport js env city unit))]))"
proof (intro conjI impI)
  assume "conforms calculatorToolDefinition kvs"
  from calculator_conforms_cases [OF this]
  obtain operation a b where kv: "map_of kvs ''operation'' = Some (JStr operation)"
    "operation \<in> set calculator_operations"
    "map_of kvs ''a'' = Some (JNum a)" "map_of kvs ''b'' = Some (JNum b)"
    by blast
  then have p: "CalculatorInputSchema_safeParse (Some (JObj kvs))
                = Inr (CalculatorInput operation a b)"
    by (simp add: CalculatorInputSchema_safeParse_def z_enum_def z_number_def)
  show "\<not> is_validation_error (invokeTool js env ''calculator'' (Some (JObj kvs)))"
    using p by (simp add: invokeTool_def dispatch_def handleCalculator_def
        is_validation_error_def Let_def)
  show "case invokeTool js env ''calculator'' (Some (JObj kvs)) of
          Inr content \<Rightarrow> True
        | Inl e \<Rightarrow> e = McpError InvalidParams ''Cannot divide by zero''
                   \<and> map_of kvs ''operation'' = Some (JStr ''divide'')
                   \<and> map_of kvs ''b'' = Some (JNum 0)"
    using p kv by (simp add: invokeTool_def dispatch_def handleCalculator_def Let_def)
next
  assume a: "conforms weatherToolDefinition kvs \<and> map_of kvs ''city'' \<noteq> Some (JStr [])"
  from weather_conforms_cases [of kvs] a
  obtain city where city: "map_of kvs ''city'' = Some (JStr city)" "city \<noteq> []"
    and unit: "map_of kvs ''unit'' = None
       \<or> (\<exists>unit. map_of kvs ''unit'' = Some (JStr unit) \<and> unit \<in> set weather_units)"
    by auto
  from unit obtain unit where "map_of kvs ''unit'' = None \<and> unit = ''celsius''
         \<or> map_of kvs ''unit'' = Some (JStr unit) \<and> unit \<in> set weather_units"
    by auto
  from get_weather_valid [OF city this]
  show "\<exists>city unit. invokeTool js env ''get_weather'' (Some (JObj kvs))
         = Inr [ContentItem ''text'' (stringify (double_to_string js) [] (weatherReport js env city unit))]"
    by blast
qed

lemma multiply_conforms:
  "conforms calculatorToolDefinition
     [(''operation'', JStr ''multiply''), (''a'', JNum 25), (''b'', JNum 4)]"
  by (simp add: conforms_def violated_def required_fields_def declared_properties_def
      calculatorToolDefinition_def property_holds_def has_type_def)

lemma tokyo_conforms:
  "conforms weatherToolDefinition [(''city'', JStr ''Tokyo'')]
   \<and> map_of [(''city'', JStr ''Tokyo'')] ''city'' \<noteq> Some (JStr [])"
  by (simp add: conforms_def violated_def required_fields_def declared_properties_def
      weatherToolDefinition_def property_holds_def has_type_def)

theorem conforming_arguments_pass_validation_witness:
  "conforms calculatorToolDefinition
     [(''operation'', JStr ''multiply''), (''a'', JNum 25), (''b'', JNum 4)]
   \<and> \<not> is_validation_error
         (invokeTool js0 env0 ''calculator''
            (calculator_args ''multiply'' (JNum 25) (JNum 4)))
   \<and> conforms weatherToolDefinition [(''city'', JStr ''Tokyo'')]
   \<and> (\<exists>city unit. invokeTool js0 env0 ''get_weather'' (Some (JObj [(''city'', JStr ''Tokyo'')]))
         = Inr [ContentItem ''text'' (stringify (double_to_string js0) [] (weatherReport js0 env0 city unit))])"
  using multiply_conforms tokyo_conforms
    conforming_arguments_pass_validation
      [of "[(''operation'', JStr ''multiply''), (''a'', JNum 25), (''b'', JNum 4)]" js0 env0]
    conforming_arguments_pass_validation [of "[(''city'', JStr ''Tokyo'')]" js0 env0]
  by (simp add: calculator_args_def)

text \<open>
  Counterexamples to claim C4 as stated: the empty city satisfies the declared schema of
  \<open>get_weather\<close> (a string) and is refused by validation; a division by zero satisfies
  the declared schema of the calculator and is answered with \<open>InvalidParams\<close>.
\<close>

theorem conforming_arguments_counterexample:
  "conforms weatherToolDefinition [(''city'', JStr [])]
   \<and> is_validation_error
       (invokeTool js0 env0 ''get_weather'' (Some (JObj [(''city'', JStr [])])))
   \<and> conforms calculatorToolDefinition
       [(''operation'', JStr ''divide''), (''a'', JNum 1), (''b'', JNum 0)]
   \<and> error_code (invokeTool js0 env0 ''calculator''
                   (calculator_args ''divide'' (JNum 1) (JNum 0))) = Some InvalidParams"
  by (simp add: conforms_def violated_def required_fields_def declared_properties_def
      weatherToolDefinition_def calculatorToolDefinition_def property_holds_def has_type_def
      weather_defs calculator_defs is_validation_error_def error_code_def)


section \<open>The agentic loop\<close>

lemma process_calls_eq:
  "process_calls callTool cs s out acc
   = ((case first_error (outcomes callTool s cs) of
         None \<Rightarrow> Inr (acc @ responses cs (outcomes callTool s cs))
       | Some e \<Rightarrow> Inl e),
      state_after callTool s (take (Suc (succeeded (outcomes callTool s cs))) cs),
      out @ printed cs (outcomes callTool s cs))"
proof (induction cs arbitrary: s out acc)
  case Nil
  then show ?case by simp
next
  case (Cons c cs)
  obtain r s' where ct: "callTool s (call_name c) (call_args c) = (r, s')"
    by (cases "callTool s (call_name c) (call_args c)")
  show ?case
  proof (cases r)
    case (Inl e)
    with ct show ?thesis by simp
  next
    case (Inr content)
    with ct show ?thesis
      by (simp add: Cons.IH split: option.splits)
  qed
qed







text \<open>
  Claim C2, as the code has it. When a call is answered with an error, the \<open>for\<close> loop is
  left at that call: the calls after it are not made, nothing is sent to the model, and
  the turn ends in the \<open>catch\<close>, which prints the error for the user.
\<close>

theorem tool_error_ends_turn:
  assumes "functionCalls candidate = Some calls"
    and "first_error (outcomes callTool (server st) calls) = Some e"
  shows "\<exists>st'. loop_body sendMessage callTool st candidate = Inl st'
           \<and> sent st' = sent st
           \<and> chat st' = chat st
           \<and> console st'
               = console st @ printed calls (outcomes callTool (server st) calls)
                 @ [Error (ToolError e)]
           \<and> server st'
               = state_after callTool (server st)
                   (take (Suc (succeeded (outcomes callTool (server st) calls))) calls)"
proof -
  from assms(2) have "calls \<noteq> []"
    by auto
  with assms show ?thesis
    by (simp add: loop_body_def process_calls_eq)
qed

lemmas client_defs =
  server_callTool_def server0_def client0_def silent_chat_def multiply_call_def add_call_def
  divide_by_zero_call_def unknown_call_def calculator_text_def to_double_def ToString_def
  Number_toString_def resultText_def




lemma failing_outcomes:
  "outcomes (server_callTool js0) (server client0) [divide_by_zero_call, multiply_call]
   = [Inl (McpError InvalidParams ''Cannot divide by zero''),
      Inr [ContentItem ''text'' ''25 multiply 4 = 100'']]"
  by (simp add: client_defs calculator_defs digits.simps)

theorem tool_error_ends_turn_witness:
  "functionCalls (Candidate (Some [divide_by_zero_call, multiply_call]) [])
     = Some [divide_by_zero_call, multiply_call]
   \<and> first_error (outcomes (server_callTool js0) (server client0)
                    [divide_by_zero_call, multiply_call])
     = Some (McpError InvalidParams ''Cannot divide by zero'')
   \<and> (\<exists>st'. loop_body silent_chat (server_callTool js0) client0
               (Candidate (Some [divide_by_zero_call, multiply_call]) []) = Inl st'
          \<and> sent st' = []
          \<and> console st'
              = [CallingTool (call_name divide_by_zero_call) (call_args divide_by_zero_call),
                 Error (ToolError (McpError InvalidParams ''Cannot divide by zero''))])"
proof -
  let ?calls = "[divide_by_zero_call, multiply_call]"
  let ?os = "outcomes (server_callTool js0) (server client0) ?calls"
  let ?e = "McpError InvalidParams ''Cannot divide by zero''"
  have 1: "functionCalls (Candidate (Some ?calls) []) = Some ?calls"
    by simp
  have 2: "first_error ?os = Some ?e"
    unfolding failing_outcomes by simp
  have p: "printed ?calls ?os
           = [CallingTool (call_name divide_by_zero_call) (call_args divide_by_zero_call)]"
    unfolding failing_outcomes by simp
  from tool_error_ends_turn [OF 1 2, of silent_chat]
  obtain st' where st': "loop_body silent_chat (server_callTool js0) client0
                           (Candidate (Some ?calls) []) = Inl st'"
    "sent st' = sent client0"
    "console st' = console client0 @ printed ?calls ?os @ [Error (ToolError ?e)]"
    by blast
  have "sent st' = []"
    using st'(2) by (simp add: client0_def)
  moreover have "console st'
      = [CallingTool (call_name divide_by_zero_call) (call_args divide_by_zero_call),
         Error (ToolError ?e)]"
    unfolding st'(3) p by (simp add: client0_def)
  ultimately show ?thesis
    using 1 2 st'(1) by blast
qed

text \<open>
  Counterexample to claim C2 as stated: after a division by zero requested together with a
  multiplication, nothing is sent to the model, the multiplication is never made (the
  server has served one call), the turn is over and the error is on the user's console.
\<close>

theorem tool_error_counterexample:
  "sent (client_of (loop_body silent_chat (server_callTool js0) client0
                      (Candidate (Some [divide_by_zero_call, multiply_call]) []))) = []
   \<and> served (server (client_of (loop_body silent_chat (server_callTool js0) client0
                      (Candidate (Some [divide_by_zero_call, multiply_call]) [])))) = 1
   \<and> isl (loop_body silent_chat (server_callTool js0) client0
             (Candidate (Some [divide_by_zero_call, multiply_call]) []))
   \<and> last (console (client_of (loop_body silent_chat (server_callTool js0) client0
                      (Candidate (Some [divide_by_zero_call, multiply_call]) []))))
     = Error (ToolError (McpError InvalidParams ''Cannot divide by zero''))"
  by (simp add: loop_body_def client_defs calculator_defs)


section \<open>The schema translation\<close>

lemma toGeminiSchemaType_known:
  "toGeminiSchemaType ''string'' = Type STRING"
  "toGeminiSchemaType ''number'' = Type NUMBER"
  "toGeminiSchemaType ''integer'' = Type INTEGER"
  "toGeminiSchemaType ''boolean'' = Type BOOLEAN"
  "toGeminiSchemaType ''array'' = Type ARRAY"
  "toGeminiSchemaType ''object'' = Type OBJECT"
  by (simp_all add: toGeminiSchemaType_def schema_type_map_def)

lemma toGeminiSchemaType_default:
  assumes "t \<notin> fst ` set schema_type_map" and "t \<notin> set Object_prototype_keys"
  shows "toGeminiSchemaType t = Type STRING"
proof -
  from assms(1) have "map_of schema_type_map t = None"
    by (simp add: map_of_eq_None_iff)
  with assms(2) show ?thesis
    by (simp add: toGeminiSchemaType_def)
qed

lemma update_fresh: "key \<notin> fst ` set al \<Longrightarrow> AList.update key v al = al @ [(key, v)]"
  by (induction al) auto

lemma translate_entries_append:
  assumes "distinct (map fst props)" and "''__proto__'' \<notin> fst ` set props"
    and "fst ` set props \<inter> fst ` set acc = {}"
  shows "translate_entries props acc = acc @ map (\<lambda>(k, v). (k, translate_property v)) props"
  using assms
proof (induction props arbitrary: acc)
  case Nil
  then show ?case by simp
next
  case (Cons p props)
  obtain key val where p: "p = (key, val)"
    by (cases p)
  from Cons.prems p have fresh: "key \<notin> fst ` set acc" and key: "key \<noteq> ''__proto__''"
    by auto
  then have step: "assign acc key (translate_property val) = acc @ [(key, translate_property val)]"
    by (simp add: assign_def update_fresh)
  have "translate_entries props (acc @ [(key, translate_property val)])
        = (acc @ [(key, translate_property val)]) @ map (\<lambda>(k, v). (k, translate_property v)) props"
    using Cons.prems p by (intro Cons.IH) auto
  with step p show ?case by simp
qed

lemma mcpToolToGeminiFn_preserves:
  assumes "properties (inputSchema tool) = Some props" and "distinct (map fst props)"
    and "''__proto__'' \<notin> fst ` set props"
  shows "fn_name (mcpToolToGeminiFn tool) = tool_name tool"
    and "map fst (params_properties (fn_parameters (mcpToolToGeminiFn tool))) = map fst props"
    and "params_properties (fn_parameters (mcpToolToGeminiFn tool))
         = map (\<lambda>(k, v). (k, translate_property v)) props"
    and "required (inputSchema tool) = Some r
         \<Longrightarrow> params_required (fn_parameters (mcpToolToGeminiFn tool)) = r"
proof -
  have "translate_entries props [] = map (\<lambda>(k, v). (k, translate_property v)) props"
    using translate_entries_append [of props "[]"] assms(2,3) by simp
  with assms(1) show "params_properties (fn_parameters (mcpToolToGeminiFn tool))
         = map (\<lambda>(k, v). (k, translate_property v)) props"
    by (simp add: mcpToolToGeminiFn_def Let_def)
  then show "map fst (params_properties (fn_parameters (mcpToolToGeminiFn tool))) = map fst props"
    by (simp add: case_prod_unfold comp_def)
  show "fn_name (mcpToolToGeminiFn tool) = tool_name tool"
    by (simp add: mcpToolToGeminiFn_def Let_def)
  show "required (inputSchema tool) = Some r
         \<Longrightarrow> params_required (fn_parameters (mcpToolToGeminiFn tool)) = r"
    by (simp add: mcpToolToGeminiFn_def Let_def)
qed

lemma translate_property_preserves:
  "gp_enum (translate_property val) = prop_enum val"
  "prop_description val = Some d \<Longrightarrow> gp_description (translate_property val) = d"
  by (simp_all add: translate_property_def)

text \<open>
  Claim C7. The claim holds for the names, descriptions, enumerations, the required list
  and the six known kinds (lemmas above). It fails for the default: the unrecognized kind
  \<open>constructor\<close> does not become \<open>STRING\<close>; the lookup in the object literal finds the
  member inherited from \<open>Object.prototype\<close>, and the declaration carries that.
\<close>

theorem unrecognized_kind_constructor_is_not_STRING:
  "toGeminiSchemaType ''constructor'' = Inherited ''constructor''
   \<and> toGeminiSchemaType ''constructor'' \<noteq> Type STRING
   \<and> map (\<lambda>p. gp_type (snd p)) (params_properties (fn_parameters (mcpToolToGeminiFn odd_tool)))
     = [Inherited ''constructor'']"
  by (simp add: toGeminiSchemaType_def schema_type_map_def Object_prototype_keys_def
      mcpToolToGeminiFn_def odd_tool_def assign_def translate_property_def)


section \<open>The schema translation has no side effects\<close>

subsection \<open>Reads survive allocation\<close>

lemma cell_at_prefix:
  "prefix h h' \<Longrightarrow> cell_at h a = Some c \<Longrightarrow> cell_at h' a = Some c"
  by (auto simp: cell_at_def prefix_def nth_append split: if_splits)

lemma get_prop_prefix:
  "prefix h h' \<Longrightarrow> get_prop h v k = Some x \<Longrightarrow> get_prop h' v k = Some x"
  by (auto simp: get_prop_def split: val.splits option.splits cell.splits
      dest: cell_at_prefix)

lemma read_strings_prefix:
  "prefix h h' \<Longrightarrow> read_strings h v = Some xs \<Longrightarrow> read_strings h' v = Some xs"
  by (auto simp: read_strings_def split: val.splits option.splits cell.splits
      dest: cell_at_prefix)

lemma read_object_prefix:
  "prefix h h' \<Longrightarrow> read_object h v = Some kvs \<Longrightarrow> read_object h' v = Some kvs"
  by (auto simp: read_object_def split: val.splits option.splits cell.splits
      dest: cell_at_prefix)

lemma read_optional_mono:
  assumes "\<And>x. rd v = Some x \<Longrightarrow> rd' v = Some x"
    and "read_optional rd v = Some y"
  shows "read_optional rd' v = Some y"
  using assms by (auto simp: read_optional_def split: if_splits)

lemma read_entries_mono:
  assumes "\<And>k v x. (k, v) \<in> set kvs \<Longrightarrow> rd v = Some x \<Longrightarrow> rd' v = Some x"
    and "read_entries rd kvs = Some xs"
  shows "read_entries rd' kvs = Some xs"
  using assms
proof (induction kvs arbitrary: xs)
  case Nil
  then show ?case by simp
next
  case (Cons kv kvs)
  obtain k v where kv: "kv = (k, v)"
    by (cases kv)
  from Cons.prems(2) kv obtain x xs' where x: "rd v = Some x"
    and xs': "read_entries rd kvs = Some xs'" and xs: "xs = (k, x) # xs'"
    by (auto simp: bind_eq_Some_conv)
  have "rd' v = Some x"
    using Cons.prems(1) [of k v x] kv x by simp
  moreover have "read_entries rd' kvs = Some xs'"
    using Cons.prems(1) xs' by (intro Cons.IH) auto
  ultimately show ?case
    using kv xs by simp
qed

lemma read_property_prefix:
  assumes "prefix h h'" and "read_property h v = Some p"
  shows "read_property h' v = Some p"
proof -
  from assms(2) obtain t t' d d' e e' where r:
    "get_prop h v ''type'' = Some t" "read_string t = Some t'"
    "get_prop h v ''description'' = Some d" "read_optional read_string d = Some d'"
    "get_prop h v ''enum'' = Some e" "read_optional (read_strings h) e = Some e'"
    "p = \<lparr>prop_type = t', prop_description = d', prop_enum = e'\<rparr>"
    by (auto simp: read_property_def bind_eq_Some_conv)
  have "read_optional (read_strings h') e = Some e'"
    using r(6) by (rule read_optional_mono [rotated]) (rule read_strings_prefix [OF assms(1)])
  then show ?thesis
    using r get_prop_prefix [OF assms(1)] by (simp add: read_property_def)
qed

lemma read_gproperty_prefix:
  assumes "prefix h h'" and "read_gproperty h v = Some p"
  shows "read_gproperty h' v = Some p"
proof -
  from assms(2) obtain t t' d d' e e' where r:
    "get_prop h v ''type'' = Some t" "read_type t = Some t'"
    "get_prop h v ''description'' = Some d" "read_string d = Some d'"
    "get_prop h v ''enum'' = Some e" "read_optional (read_strings h) e = Some e'"
    "p = \<lparr>gp_type = t', gp_description = d', gp_enum = e'\<rparr>"
    by (auto simp: read_gproperty_def bind_eq_Some_conv)
  have "read_optional (read_strings h') e = Some e'"
    using r(6) by (rule read_optional_mono [rotated]) (rule read_strings_prefix [OF assms(1)])
  then show ?thesis
    using r get_prop_prefix [OF assms(1)] by (simp add: read_gproperty_def)
qed

lemma read_properties_prefix:
  assumes "prefix h h'" and "read_properties h v = Some ps"
  shows "read_properties h' v = Some ps"
proof -
  from assms(2) obtain kvs where kvs: "read_object h v = Some kvs"
    and ps: "read_entries (read_property h) kvs = Some ps"
    by (auto simp: read_properties_def bind_eq_Some_conv)
  have "read_entries (read_property h') kvs = Some ps"
    using ps by (rule read_entries_mono [rotated]) (rule read_property_prefix [OF assms(1)])
  then show ?thesis
    using read_object_prefix [OF assms(1) kvs] by (simp add: read_properties_def)
qed

lemma read_schema_prefix:
  assumes "prefix h h'" and "read_schema h v = Some s"
  shows "read_schema h' v = Some s"
proof -
  from assms(2) obtain p p' r r' where x:
    "get_prop h v ''properties'' = Some p" "read_optional (read_properties h) p = Some p'"
    "get_prop h v ''required'' = Some r" "read_optional (read_strings h) r = Some r'"
    "s = \<lparr>properties = p', required = r'\<rparr>"
    by (auto simp: read_schema_def bind_eq_Some_conv)
  have "read_optional (read_properties h') p = Some p'"
    using x(2) by (rule read_optional_mono [rotated]) (rule read_properties_prefix [OF assms(1)])
  moreover have "read_optional (read_strings h') r = Some r'"
    using x(4) by (rule read_optional_mono [rotated]) (rule read_strings_prefix [OF assms(1)])
  ultimately show ?thesis
    using x get_prop_prefix [OF assms(1)] by (simp add: read_schema_def)
qed

lemma read_tool_prefix:
  assumes "prefix h h'" and "read_tool h v = Some tool"
  shows "read_tool h' v = Some tool"
proof -
  from assms(2) obtain n n' d d' s s' where x:
    "get_prop h v ''name'' = Some n" "read_string n = Some n'"
    "get_prop h v ''description'' = Some d" "read_optional read_string d = Some d'"
    "get_prop h v ''inputSchema'' = Some s" "read_schema h s = Some s'"
    "tool = \<lparr>tool_name = n', tool_description = d', inputSchema = s'\<rparr>"
    by (auto simp: read_tool_def bind_eq_Some_conv)
  show ?thesis
    using x get_prop_prefix [OF assms(1)] read_schema_prefix [OF assms(1) x(6)]
    by (simp add: read_tool_def)
qed

lemma read_parameters_prefix:
  assumes "prefix h h'" and "read_parameters h v = Some ps"
  shows "read_parameters h' v = Some ps"
proof -
  from assms(2) obtain t t' p kvs p' r r' where x:
    "get_prop h v ''type'' = Some t"
    "(case t of VType (Type ty) \<Rightarrow> Some ty | _ \<Rightarrow> None) = Some t'"
    "get_prop h v ''properties'' = Some p" "read_object h p = Some kvs"
    "read_entries (read_gproperty h) kvs = Some p'"
    "get_prop h v ''required'' = Some r" "read_strings h r = Some r'"
    "ps = \<lparr>params_type = t', params_properties = p', params_required = r'\<rparr>"
    by (auto simp: read_parameters_def bind_eq_Some_conv)
  have "read_entries (read_gproperty h') kvs = Some p'"
    using x(5) by (rule read_entries_mono [rotated]) (rule read_gproperty_prefix [OF assms(1)])
  then show ?thesis
    using x get_prop_prefix [OF assms(1)] read_object_prefix [OF assms(1) x(4)]
      read_strings_prefix [OF assms(1) x(7)]
    by (simp add: read_parameters_def)
qed

lemma read_declaration_prefix:
  assumes "prefix h h'" and "read_declaration h v = Some decl"
  shows "read_declaration h' v = Some decl"
proof -
  from assms(2) obtain n n' d d' p p' where x:
    "get_prop h v ''name'' = Some n" "read_string n = Some n'"
    "get_prop h v ''description'' = Some d" "read_string d = Some d'"
    "get_prop h v ''parameters'' = Some p" "read_parameters h p = Some p'"
    "decl = \<lparr>fn_name = n', fn_description = d', fn_parameters = p'\<rparr>"
    by (auto simp: read_declaration_def bind_eq_Some_conv)
  show ?thesis
    using x get_prop_prefix [OF assms(1)] read_parameters_prefix [OF assms(1) x(6)]
    by (simp add: read_declaration_def)
qed

subsection \<open>Writes to the one new object\<close>

lemma grows_except_refl: "grows_except Q h h"
  by (simp add: grows_except_def)

lemma grows_except_trans:
  "grows_except Q h h' \<Longrightarrow> grows_except Q h' h'' \<Longrightarrow> grows_except Q h h''"
  by (auto simp: grows_except_def)

lemma grows_except_alloc_update: "grows_except Q h ((h @ [c])[Q := c'])"
  by (auto simp: grows_except_def nth_append)

lemma grows_except_prefix:
  assumes "prefix h0 h" and "length h0 \<le> Q" and "grows_except Q h h'"
  shows "prefix h0 h'"
proof -
  from assms(1) obtain zs where h: "h = h0 @ zs"
    by (auto simp: prefix_def)
  have "take (length h0) h' = h0"
  proof (rule nth_equalityI)
    show "length (take (length h0) h') = length h0"
      using assms(3) h by (simp add: grows_except_def)
    fix i
    assume "i < length (take (length h0) h')"
    then have i: "i < length h0"
      by simp
    then have "h' ! i = h ! i"
      using assms(2,3) h by (simp add: grows_except_def)
    then show "take (length h0) h' ! i = h0 ! i"
      using i h by (simp add: nth_append)
  qed
  then show ?thesis
    by (metis take_is_prefix)
qed

lemma cell_at_grows:
  "grows_except Q h h' \<Longrightarrow> a \<noteq> Q \<Longrightarrow> cell_at h a = Some c \<Longrightarrow> cell_at h' a = Some c"
  by (auto simp: grows_except_def cell_at_def split: if_splits)

lemma get_prop_grows:
  "grows_except Q h h' \<Longrightarrow> v \<noteq> VRef Q \<Longrightarrow> get_prop h v k = Some x
   \<Longrightarrow> get_prop h' v k = Some x"
  by (auto simp: get_prop_def split: val.splits option.splits cell.splits dest: cell_at_grows)

lemma read_strings_grows:
  assumes "grows_except Q h h'" and "cell_at h Q = Some (HObject p kvs)"
    and "read_strings h v = Some xs"
  shows "read_strings h' v = Some xs"
proof -
  from assms(3) obtain a vs where v: "v = VRef a" and a: "cell_at h a = Some (HArray vs)"
    and xs: "read_all read_string vs = Some xs"
    by (auto simp: read_strings_def split: val.splits option.splits cell.splits)
  from a assms(2) have "a \<noteq> Q"
    by auto
  from cell_at_grows [OF assms(1) this a] v xs show ?thesis
    by (simp add: read_strings_def)
qed

lemma read_gproperty_grows:
  assumes "grows_except Q h h'" and "cell_at h Q = Some (HObject p kvs)"
    and "v \<noteq> VRef Q" and "read_gproperty h v = Some g"
  shows "read_gproperty h' v = Some g"
proof -
  from assms(4) obtain t t' d d' e e' where r:
    "get_prop h v ''type'' = Some t" "read_type t = Some t'"
    "get_prop h v ''description'' = Some d" "read_string d = Some d'"
    "get_prop h v ''enum'' = Some e" "read_optional (read_strings h) e = Some e'"
    "g = \<lparr>gp_type = t', gp_description = d', gp_enum = e'\<rparr>"
    by (auto simp: read_gproperty_def bind_eq_Some_conv)
  have "read_optional (read_strings h') e = Some e'"
    using r(6) by (rule read_optional_mono [rotated]) (rule read_strings_grows [OF assms(1,2)])
  then show ?thesis
    using r get_prop_grows [OF assms(1,3)] by (simp add: read_gproperty_def)
qed

lemma read_entries_update:
  assumes "read_entries rd kvs = Some acc" and "rd v = Some x"
  shows "read_entries rd (AList.update key v kvs) = Some (AList.update key x acc)"
  using assms(1)
proof (induction kvs arbitrary: acc)
  case Nil
  then show ?case using assms(2) by simp
next
  case (Cons kv kvs)
  obtain k w where kv: "kv = (k, w)"
    by (cases kv)
  from Cons.prems kv obtain y acc' where y: "rd w = Some y"
    and acc': "read_entries rd kvs = Some acc'" and acc: "acc = (k, y) # acc'"
    by (auto simp: bind_eq_Some_conv)
  show ?case
  proof (cases "k = key")
    case True
    then show ?thesis
      using kv y acc' acc assms(2) by simp
  next
    case False
    then show ?thesis
      using kv y acc Cons.IH [OF acc'] by simp
  qed
qed

lemma update_values: "snd ` set (AList.update key v kvs) \<subseteq> insert v (snd ` set kvs)"
  by (induction kvs) auto

subsection \<open>The loop on the store computes the loop on values\<close>

lemma translate_entries_store_refines:
  assumes "read_entries (read_property h0) entries = Some props"
    and "prefix h0 h" and "length h0 \<le> Q"
    and "cell_at h Q = Some (HObject p kvs)"
    and "read_entries (read_gproperty h) kvs = Some acc"
    and "VRef Q \<notin> snd ` set kvs"
  shows "\<exists>h' p' kvs'. translate_entries_store h Q entries = Some h'
           \<and> grows_except Q h h'
           \<and> cell_at h' Q = Some (HObject p' kvs')
           \<and> read_entries (read_gproperty h') kvs' = Some (translate_entries props acc)
           \<and> VRef Q \<notin> snd ` set kvs'"
  using assms
proof (induction entries arbitrary: props h p kvs acc)
  case Nil
  then show ?case
    by (auto simp: grows_except_refl)
next
  case (Cons ent entries)
  obtain key v where ent: "ent = (key, v)"
    by (cases ent)
  from Cons.prems(1) ent obtain pr props' where pr: "read_property h0 v = Some pr"
    and props': "read_entries (read_property h0) entries = Some props'"
    and props: "props = (key, pr) # props'"
    by (auto simp: bind_eq_Some_conv)
  from pr obtain tv t d d' e e' where r0:
    "get_prop h0 v ''type'' = Some tv" "read_string tv = Some t"
    "get_prop h0 v ''description'' = Some d" "read_optional read_string d = Some d'"
    "get_prop h0 v ''enum'' = Some e" "read_optional (read_strings h0) e = Some e'"
    "pr = \<lparr>prop_type = t, prop_description = d', prop_enum = e'\<rparr>"
    by (auto simp: read_property_def bind_eq_Some_conv)
  from r0(2) have tv: "tv = VStr t"
    by (cases tv) auto
  note pre = \<open>prefix h0 h\<close>
  have gets: "get_prop h v ''type'' = Some (VStr t)" "get_prop h v ''description'' = Some d"
    "get_prop h v ''enum'' = Some e"
    using r0(1,3,5) tv get_prop_prefix [OF pre] by auto
  define c where "c = HObject None
      ([(''type'', VType (toGeminiSchemaType t)), (''description'', nullish_or d (VStr []))]
       @ (if truthy e then [(''enum'', e)] else []))"
  define q where "q = length h"
  define p2 where "p2 = (if key = ''__proto__'' then Some q else p)"
  define kvs2 where "kvs2 = (if key = ''__proto__'' then kvs else AList.update key (VRef q) kvs)"
  define h2 where "h2 = (h @ [c])[Q := HObject p2 kvs2]"
  from Cons.prems(4) have Qlt: "Q < length h" and hQ: "h ! Q = HObject p kvs"
    by (auto simp: cell_at_def split: if_splits)
  have "cell_at (h @ [c]) Q = Some (HObject p kvs)"
    using Qlt hQ by (simp add: cell_at_def nth_append)
  then have sp: "set_prop (h @ [c]) Q key (VRef q) = Some h2"
    by (simp add: set_prop_def h2_def p2_def kvs2_def)
  have step: "translate_entries_store h Q (ent # entries) = translate_entries_store h2 Q entries"
    using gets sp by (simp add: ent c_def q_def)
  have g: "grows_except Q h h2"
    unfolding h2_def by (rule grows_except_alloc_update)
  have pre2: "prefix h0 h2"
    by (rule grows_except_prefix [OF pre Cons.prems(3) g])
  have cellq: "cell_at h2 q = Some c"
    using Qlt by (simp add: cell_at_def h2_def q_def nth_append)
  have cellQ: "cell_at h2 Q = Some (HObject p2 kvs2)"
    using Qlt by (simp add: cell_at_def h2_def)
  have desc: "read_string (nullish_or d (VStr [])) = Some (case d' of None \<Rightarrow> [] | Some x \<Rightarrow> x)"
    using r0(4) by (cases d) (auto simp: read_optional_def nullish_or_def split: if_splits)
  have enum: "read_optional (read_strings h2)
                (case map_of (if truthy e then [(''enum'', e)] else []) ''enum'' of
                   None \<Rightarrow> VUndefined | Some x \<Rightarrow> x) = Some e'"
  proof (cases "e = VUndefined")
    case True
    then show ?thesis
      using r0(6) by (simp add: read_optional_def)
  next
    case False
    with r0(6) obtain xs where xs: "read_strings h0 e = Some xs" and e': "e' = Some xs"
      by (auto simp: read_optional_def)
    from xs have "truthy e"
      by (cases e) (auto simp: read_strings_def)
    moreover have "read_strings h2 e = Some xs"
      by (rule read_strings_prefix [OF pre2 xs])
    ultimately show ?thesis
      using False e' by (simp add: read_optional_def)
  qed
  have rg: "read_gproperty h2 (VRef q) = Some (translate_property pr)"
    using cellq desc enum
    by (simp add: read_gproperty_def get_prop_def c_def translate_property_def r0(7))
  have old: "read_entries (read_gproperty h2) kvs = Some acc"
  proof (rule read_entries_mono [OF _ Cons.prems(5)])
    fix k w x
    assume "(k, w) \<in> set kvs" and x: "read_gproperty h w = Some x"
    then have "w \<noteq> VRef Q"
      using Cons.prems(6) by force
    then show "read_gproperty h2 w = Some x"
      using x by (intro read_gproperty_grows [OF g Cons.prems(4)])
  qed
  have new: "read_entries (read_gproperty h2) kvs2
             = Some (assign acc key (translate_property pr))"
    using old read_entries_update [OF old rg, of key]
    by (simp add: kvs2_def assign_def)
  have "VRef q \<noteq> VRef Q"
    using Qlt by (simp add: q_def)
  then have fresh: "VRef Q \<notin> snd ` set kvs2"
    using Cons.prems(6) update_values [of key "VRef q" kvs] by (auto simp: kvs2_def)
  from Cons.IH [OF props' pre2 Cons.prems(3) cellQ new fresh]
  obtain h' p' kvs' where h': "translate_entries_store h2 Q entries = Some h'"
    "grows_except Q h2 h'" "cell_at h' Q = Some (HObject p' kvs')"
    "read_entries (read_gproperty h') kvs'
     = Some (translate_entries props' (assign acc key (translate_property pr)))"
    "VRef Q \<notin> snd ` set kvs'"
    by blast
  have "grows_except Q h h'"
    by (rule grows_except_trans [OF g h'(2)])
  with h' step props show ?case
    by auto
qed

subsection \<open>The translation on the store computes the translation on values\<close>

lemma mcpToolToGeminiFn_store_refines:
  assumes "read_tool h0 t = Some tool"
  shows "\<exists>d h'. mcpToolToGeminiFn_store h0 t = Some (d, h')
           \<and> prefix h0 h'
           \<and> read_declaration h' d = Some (mcpToolToGeminiFn tool)"
proof -
  from assms obtain nv n d d' s sch where rt:
    "get_prop h0 t ''name'' = Some nv" "read_string nv = Some n"
    "get_prop h0 t ''description'' = Some d" "read_optional read_string d = Some d'"
    "get_prop h0 t ''inputSchema'' = Some s" "read_schema h0 s = Some sch"
    "tool = \<lparr>tool_name = n, tool_description = d', inputSchema = sch\<rparr>"
    by (auto simp: read_tool_def bind_eq_Some_conv)
  from rt(2) have nv: "nv = VStr n"
    by (cases nv) auto
  from rt(6) obtain sp sp' req req' where rs:
    "get_prop h0 s ''properties'' = Some sp" "read_optional (read_properties h0) sp = Some sp'"
    "get_prop h0 s ''required'' = Some req" "read_optional (read_strings h0) req = Some req'"
    "sch = \<lparr>properties = sp', required = req'\<rparr>"
    by (auto simp: read_schema_def bind_eq_Some_conv)
  define Q where "Q = length h0"
  define h1 where "h1 = h0 @ [HObject None []]"
  define rq where "rq = (if req = VUndefined then VRef (length h1) else req)"
  define h2 where "h2 = (if req = VUndefined then h1 @ [HArray []] else h1)"
  define P where "P = length h2"
  define cP where "cP = HObject None [(''type'', VType (Type OBJECT)),
                                      (''properties'', VRef Q), (''required'', rq)]"
  define h3 where "h3 = h2 @ [cP]"
  have pre1: "prefix h0 h1"
    by (simp add: h1_def)
  have pre12: "prefix h1 h2"
    by (simp add: h2_def)
  have pre23: "prefix h2 h3"
    by (simp add: h3_def)
  have pre3: "prefix h0 h3"
    using pre1 pre12 pre23 by (meson prefix_order.order_trans)
  have QP: "Q < P"
    by (simp add: Q_def P_def h2_def h1_def)
  have cellQ3: "cell_at h3 Q = Some (HObject None [])"
    by (rule cell_at_prefix [OF pre23], rule cell_at_prefix [OF pre12])
      (simp add: cell_at_def h1_def Q_def)
  have cellP3: "cell_at h3 P = Some cP"
    by (simp add: cell_at_def h3_def P_def)
  have req3: "read_strings h3 rq = Some (case req' of None \<Rightarrow> [] | Some r \<Rightarrow> r)"
  proof (cases "req = VUndefined")
    case True
    then have "cell_at h2 (length h1) = Some (HArray [])"
      by (simp add: cell_at_def h2_def)
    then have "cell_at h3 (length h1) = Some (HArray [])"
      by (rule cell_at_prefix [OF pre23])
    then show ?thesis
      using True rs(4) by (simp add: read_strings_def rq_def read_optional_def)
  next
    case False
    with rs(4) obtain r where "read_strings h0 req = Some r" and "req' = Some r"
      by (auto simp: read_optional_def)
    then show ?thesis
      using False read_strings_prefix [OF pre3] by (simp add: rq_def)
  qed
  let ?props = "case sp' of None \<Rightarrow> [] | Some props \<Rightarrow> translate_entries props []"
  let ?loop = "if truthy sp
               then (case sp of
                       VRef p \<Rightarrow>
                         (case cell_at h3 p of
                            Some (HObject pr entries) \<Rightarrow> translate_entries_store h3 Q entries
                          | _ \<Rightarrow> None)
                     | _ \<Rightarrow> None)
               else Some h3"
  have "\<exists>h4 pQ kvsQ. ?loop = Some h4 \<and> grows_except Q h3 h4
          \<and> cell_at h4 Q = Some (HObject pQ kvsQ)
          \<and> read_entries (read_gproperty h4) kvsQ = Some ?props"
  proof (cases "sp = VUndefined")
    case True
    then show ?thesis
      using rs(2) cellQ3 by (auto simp: read_optional_def grows_except_refl)
  next
    case False
    with rs(2) obtain props where props: "read_properties h0 sp = Some props"
      and sp': "sp' = Some props"
      by (auto simp: read_optional_def)
    from props obtain entries where obj: "read_object h0 sp = Some entries"
      and ents: "read_entries (read_property h0) entries = Some props"
      by (auto simp: read_properties_def bind_eq_Some_conv)
    from obj obtain pa pr where sp: "sp = VRef pa"
      and pa: "cell_at h0 pa = Some (HObject pr entries)"
      by (auto simp: read_object_def split: val.splits option.splits cell.splits)
    have pa3: "cell_at h3 pa = Some (HObject pr entries)"
      by (rule cell_at_prefix [OF pre3 pa])
    have "length h0 \<le> Q"
      by (simp add: Q_def)
    from translate_entries_store_refines [OF ents pre3 this cellQ3, of "[]"]
    show ?thesis
      using sp pa3 sp' by auto
  qed
  then obtain h4 pQ kvsQ where loop: "?loop = Some h4" and g: "grows_except Q h3 h4"
    and cellQ4: "cell_at h4 Q = Some (HObject pQ kvsQ)"
    and ents4: "read_entries (read_gproperty h4) kvsQ = Some ?props"
    by blast
  have pre4: "prefix h0 h4"
    by (rule grows_except_prefix [OF pre3 _ g]) (simp add: Q_def)
  define cD where "cD = HObject None [(''name'', VStr n),
      (''description'', nullish_or d (VStr [])), (''parameters'', VRef P)]"
  define h5 where "h5 = h4 @ [cD]"
  have pre45: "prefix h4 h5"
    by (simp add: h5_def)
  have pre5: "prefix h0 h5"
    using pre4 pre45 by (meson prefix_order.order_trans)
  have run: "mcpToolToGeminiFn_store h0 t = Some (VRef (length h4), h5)"
  proof -
    have "get_prop h3 s ''properties'' = Some sp"
      by (rule get_prop_prefix [OF pre3 rs(1)])
    moreover have "get_prop h4 t ''name'' = Some (VStr n)"
      using get_prop_prefix [OF pre4 rt(1)] nv by simp
    moreover have "get_prop h4 t ''description'' = Some d"
      by (rule get_prop_prefix [OF pre4 rt(3)])
    ultimately show ?thesis
      using rt(5) rs(3) loop
      unfolding mcpToolToGeminiFn_store_def Let_def h5_def cD_def h3_def cP_def h2_def
          h1_def rq_def P_def Q_def
      by (simp split del: if_split)
  qed
  have cellP5: "cell_at h5 P = Some cP"
  proof -
    have "P \<noteq> Q"
      using QP by simp
    from cell_at_grows [OF g this cellP3] show ?thesis
      by (rule cell_at_prefix [OF pre45])
  qed
  have cellQ5: "cell_at h5 Q = Some (HObject pQ kvsQ)"
    by (rule cell_at_prefix [OF pre45 cellQ4])
  have ents5: "read_entries (read_gproperty h5) kvsQ = Some ?props"
    using ents4 by (rule read_entries_mono [rotated]) (rule read_gproperty_prefix [OF pre45])
  have req5: "read_strings h5 rq = Some (case req' of None \<Rightarrow> [] | Some r \<Rightarrow> r)"
  proof -
    have "read_strings h4 rq = Some (case req' of None \<Rightarrow> [] | Some r \<Rightarrow> r)"
      by (rule read_strings_grows [OF g cellQ3 req3])
    then show ?thesis
      by (rule read_strings_prefix [OF pre45])
  qed
  have params: "read_parameters h5 (VRef P)
      = Some \<lparr>params_type = OBJECT, params_properties = ?props,
              params_required = (case req' of None \<Rightarrow> [] | Some r \<Rightarrow> r)\<rparr>"
    using cellP5 cellQ5 ents5 req5
    by (simp add: read_parameters_def get_prop_def read_object_def cP_def)
  have desc: "read_string (nullish_or d (VStr [])) = Some (case d' of None \<Rightarrow> [] | Some x \<Rightarrow> x)"
    using rt(4) by (cases d) (auto simp: read_optional_def nullish_or_def split: if_splits)
  have "cell_at h5 (length h4) = Some cD"
    by (simp add: cell_at_def h5_def)
  then have "read_declaration h5 (VRef (length h4))
      = Some \<lparr>fn_name = n, fn_description = (case d' of None \<Rightarrow> [] | Some x \<Rightarrow> x),
              fn_parameters = \<lparr>params_type = OBJECT, params_properties = ?props,
                params_required = (case req' of None \<Rightarrow> [] | Some r \<Rightarrow> r)\<rparr>\<rparr>"
    using params desc by (simp add: read_declaration_def get_prop_def cD_def)
  also have "\<dots> = Some (mcpToolToGeminiFn tool)"
    by (simp add: mcpToolToGeminiFn_def Let_def rt(7) rs(5))
  finally show ?thesis
    using run pre5 by blast
qed

text \<open>
  Claim C8. For a tool in the store, translating it any number \<open>n\<close> of times returns \<open>n\<close>
  declarations and changes no cell that existed before: the store afterwards starts with
  the store before. The tool still reads as it did, and every one of the declarations
  reads as the same value, the one the translation on values gives.
\<close>

theorem translation_is_pure_and_repeatable:
  assumes "read_tool h t = Some tool"
  shows "\<exists>ds h'. translate_times n h t = Some (ds, h')
           \<and> length ds = n
           \<and> prefix h h'
           \<and> read_tool h' t = Some tool
           \<and> (\<forall>d \<in> set ds. read_declaration h' d = Some (mcpToolToGeminiFn tool))"
  using assms
proof (induction n arbitrary: h)
  case 0
  then show ?case by simp
next
  case (Suc n)
  from mcpToolToGeminiFn_store_refines [OF Suc.prems]
  obtain d h1 where 1: "mcpToolToGeminiFn_store h t = Some (d, h1)" "prefix h h1"
    "read_declaration h1 d = Some (mcpToolToGeminiFn tool)"
    by blast
  have t1: "read_tool h1 t = Some tool"
    by (rule read_tool_prefix [OF 1(2) Suc.prems])
  from Suc.IH [OF t1]
  obtain ds h2 where 2: "translate_times n h1 t = Some (ds, h2)" "length ds = n" "prefix h1 h2"
    "read_tool h2 t = Some tool"
    "\<forall>d \<in> set ds. read_declaration h2 d = Some (mcpToolToGeminiFn tool)"
    by blast
  have "read_declaration h2 d = Some (mcpToolToGeminiFn tool)"
    by (rule read_declaration_prefix [OF 2(3) 1(3)])
  moreover have "prefix h h2"
    using 1(2) 2(3) by (meson prefix_order.order_trans)
  ultimately show ?case
    using 1(1) 2 by auto
qed

lemma weather_store_reads: "read_tool weather_store (VRef 6) = Some weatherToolDefinition"
  by code_simp

theorem translation_is_pure_and_repeatable_witness:
  "read_tool weather_store (VRef 6) = Some weatherToolDefinition
   \<and> (\<exists>ds h'. translate_times 2 weather_store (VRef 6) = Some (ds, h')
         \<and> length ds = 2
         \<and> prefix weather_store h'
         \<and> read_tool h' (VRef 6) = Some weatherToolDefinition
         \<and> list_all (\<lambda>d. read_declaration h' d = Some (mcpToolToGeminiFn weatherToolDefinition)) ds)"
  using weather_store_reads
    translation_is_pure_and_repeatable [OF weather_store_reads, of 2]
  by (simp add: list_all_iff)

end
